theory Spec2Isabelle
  imports Main "HOL-Library.Multiset"
begin

section \<open>The filesystem operations of the storage provisioner\<close>

text \<open>
  A shallow embedding of \<^verbatim>\<open>worker/storageprovisioner/filesystem_ops.go\<close>: the four batch
  executors \<^verbatim>\<open>createFilesystems\<close>, \<^verbatim>\<open>attachFilesystems\<close>, \<^verbatim>\<open>removeFilesystems\<close> and
  \<^verbatim>\<open>detachFilesystems\<close>, and the helpers they call.

  Conventions of the embedding.
  \<^item> A Go \<^verbatim>\<open>error\<close> value is an \<open>error option\<close>; \<open>None\<close> is \<^verbatim>\<open>nil\<close>. A call returning
    \<^verbatim>\<open>(results, err)\<close> is a sum, \<open>Inl\<close> the error.
  \<^item> A run-time panic (index out of range, nil dereference, method call on a nil
    interface) is a value of its own, never an unspecified HOL term.
  \<^item> A Go map that the code ranges over is an association list with distinct keys. For
    a map received as an argument the order of the list is the order in which the
    run time happens to iterate; for a map built by the code itself the order of
    iteration is chosen by an extra argument (see \<open>range_order\<close>), so every theorem
    holds for every order.
  \<^item> What an executor does to the outside world (bulk provider calls, calls of the
    controller facade, the two flush calls, error logs) is recorded in a list of
    events returned next to the result. Debug logging is not recorded.
\<close>

subsection \<open>Errors\<close>

text \<open>
  Package \<^verbatim>\<open>github.com/juju/errors\<close>: \<^verbatim>\<open>Trace\<close> and \<^verbatim>\<open>Annotate\<close> wrap an error,
  \<^verbatim>\<open>Cause\<close> unwraps to the innermost one. \<^verbatim>\<open>errNonDynamic\<close> is the package-level
  sentinel of the storage provisioner; it is compared by identity, so it is a
  constructor of its own.
\<close>

datatype error =
    errNonDynamic
  | New string
  | Annotated string error
  | Traced error

fun Cause :: "error \<Rightarrow> error" where
  "Cause (Annotated m e) = Cause e"
| "Cause (Traced e) = Cause e"
| "Cause e = e"

fun error_Error :: "error \<Rightarrow> string" where
  "error_Error errNonDynamic = ''non-dynamic storage provider''"
| "error_Error (New m) = m"
| "error_Error (Annotated m e) = m @ '': '' @ error_Error e"
| "error_Error (Traced e) = error_Error e"

text \<open>The verb \<^verbatim>\<open>%q\<close> of the annotations; escaping inside the name is not modelled.\<close>

definition fmt_q :: "string \<Rightarrow> string" where
  "fmt_q s = [CHR 0x22] @ s @ [CHR 0x22]"

datatype outcome = Return "error option" | Panic

subsection \<open>Tags (package names)\<close>

text \<open>
  A tag is a kind and an identifier. \<^verbatim>\<open>Id()\<close> gives the identifier back and
  \<^verbatim>\<open>String()\<close> is the kind, a dash, and the identifier with every slash written
  as a dash. The zero value of a tag type has the empty identifier.
\<close>

datatype FilesystemTag = FilesystemTag string
datatype VolumeTag = VolumeTag string
datatype MachineTag = MachineTag string

definition tag_suffix :: "string \<Rightarrow> string" where
  "tag_suffix s = map (\<lambda>c. if c = CHR ''/'' then CHR ''-'' else c) s"

fun FilesystemTag_Id :: "FilesystemTag \<Rightarrow> string" where
  "FilesystemTag_Id (FilesystemTag i) = i"

fun FilesystemTag_String :: "FilesystemTag \<Rightarrow> string" where
  "FilesystemTag_String (FilesystemTag i) = ''filesystem-'' @ tag_suffix i"

fun VolumeTag_String :: "VolumeTag \<Rightarrow> string" where
  "VolumeTag_String (VolumeTag i) = ''volume-'' @ tag_suffix i"

fun MachineTag_String :: "MachineTag \<Rightarrow> string" where
  "MachineTag_String (MachineTag i) = ''machine-'' @ tag_suffix i"

subsection \<open>Paths (package path/filepath, Unix)\<close>

text \<open>
  \<^verbatim>\<open>filepath.Join\<close> joins the elements from the first non-empty one on with a slash
  and cleans the result; with no non-empty element it is the empty string.
  \<^verbatim>\<open>filepath.Clean\<close> works on the elements between slashes: empty elements and
  \<^verbatim>\<open>.\<close> vanish, \<^verbatim>\<open>..\<close> removes the element before it, is dropped at the root and
  is kept at the start of a relative path; the empty result is \<^verbatim>\<open>.\<close>.
\<close>

fun split_sep :: "string \<Rightarrow> string list" where
  "split_sep [] = [[]]"
| "split_sep (c # cs) =
     (if c = CHR ''/'' then [] # split_sep cs
      else (case split_sep cs of [] \<Rightarrow> [[c]] | e # es \<Rightarrow> (c # e) # es))"

fun strings_Join :: "string list \<Rightarrow> string \<Rightarrow> string" where
  "strings_Join [] sep = []"
| "strings_Join [e] sep = e"
| "strings_Join (e # es) sep = e @ sep @ strings_Join es sep"

text \<open>\<open>out\<close> is the output so far, last element first.\<close>

fun clean_elems :: "bool \<Rightarrow> string list \<Rightarrow> string list \<Rightarrow> string list" where
  "clean_elems rooted out [] = rev out"
| "clean_elems rooted out (e # es) =
     (if e = [] \<or> e = ''.'' then clean_elems rooted out es
      else if e = ''..'' then
        (case out of
           [] \<Rightarrow> if rooted then clean_elems rooted [] es else clean_elems rooted [''..''] es
         | t # out' \<Rightarrow>
             if t = ''..'' then
               (if rooted then clean_elems rooted out es else clean_elems rooted (''..'' # out) es)
             else clean_elems rooted out' es)
      else clean_elems rooted (e # out) es)"

definition filepath_Clean :: "string \<Rightarrow> string" where
  "filepath_Clean path =
     (case path of
        [] \<Rightarrow> ''.''
      | c # _ \<Rightarrow>
          (let rooted = (c = CHR ''/'');
               out = clean_elems rooted [] (split_sep path)
           in if rooted then ''/'' @ strings_Join out ''/''
              else if out = [] then ''.'' else strings_Join out ''/''))"

definition filepath_Join :: "string list \<Rightarrow> string" where
  "filepath_Join elem =
     (case dropWhile (\<lambda>e. e = []) elem of
        [] \<Rightarrow> []
      | es \<Rightarrow> filepath_Clean (strings_Join es ''/''))"

subsection \<open>Data (packages storage and params)\<close>

text \<open>The fields that the operations read or write; a pointer is an option.\<close>

record FilesystemParams =
  fp_Tag :: FilesystemTag
  fp_Volume :: VolumeTag
  fp_Size :: nat
  fp_Provider :: string

record Filesystem =
  fs_Tag :: FilesystemTag
  fs_Volume :: VolumeTag
  fs_FilesystemId :: string
  fs_Size :: nat

record FilesystemAttachmentParams =
  ap_Provider :: string
  ap_Machine :: MachineTag
  ap_ReadOnly :: bool
  ap_Filesystem :: FilesystemTag
  ap_FilesystemId :: string
  ap_Path :: string

record FilesystemAttachment =
  fa_Filesystem :: FilesystemTag
  fa_Machine :: MachineTag
  fa_Path :: string
  fa_ReadOnly :: bool

record CreateFilesystemsResult =
  cr_Filesystem :: "Filesystem option"
  cr_Error :: "error option"

record AttachFilesystemsResult =
  ar_FilesystemAttachment :: "FilesystemAttachment option"
  ar_Error :: "error option"

record EntityStatusArgs =
  es_Tag :: string
  es_Status :: string
  es_Info :: string

record MachineStorageId =
  ms_MachineTag :: string
  ms_AttachmentTag :: string

record params_Filesystem =
  pf_FilesystemTag :: string
  pf_VolumeTag :: string
  pf_FilesystemId :: string
  pf_Pool :: string
  pf_Size :: nat

record params_FilesystemAttachment =
  pa_FilesystemTag :: string
  pa_MachineTag :: string
  pa_MountPoint :: string
  pa_ReadOnly :: bool

record RemoveFilesystemParams =
  rp_Provider :: string
  rp_FilesystemId :: string
  rp_Destroy :: bool

text \<open>The lifecycle states of package \<^verbatim>\<open>core/status\<close> that the operations publish.\<close>

datatype Status =
    status_Error | status_Pending | status_Attaching | status_Attached
  | status_Detaching | status_Detached | status_Destroying

fun Status_String :: "Status \<Rightarrow> string" where
  "Status_String status_Error = ''error''"
| "Status_String status_Pending = ''pending''"
| "Status_String status_Attaching = ''attaching''"
| "Status_String status_Attached = ''attached''"
| "Status_String status_Detaching = ''detaching''"
| "Status_String status_Detached = ''detached''"
| "Status_String status_Destroying = ''destroying''"

text \<open>
  The interface \<^verbatim>\<open>storage.FilesystemSource\<close>. A provider call is a function of its
  arguments; that it was made is recorded as an event by the caller.
\<close>

record FilesystemSource =
  ValidateFilesystemParams :: "FilesystemParams \<Rightarrow> error option"
  CreateFilesystems :: "FilesystemParams list \<Rightarrow> error + CreateFilesystemsResult list"
  AttachFilesystems :: "FilesystemAttachmentParams list \<Rightarrow> error + AttachFilesystemsResult list"
  DetachFilesystems :: "FilesystemAttachmentParams list \<Rightarrow> error + error option list"
  DestroyFilesystems :: "string list \<Rightarrow> error + error option list"
  ReleaseFilesystems :: "string list \<Rightarrow> error + error option list"

text \<open>The pending operations; the embedded retry state is opaque here.\<close>

datatype exponentialBackoff = exponentialBackoff nat

record createFilesystemOp =
  cf_backoff :: exponentialBackoff
  cf_args :: FilesystemParams

record removeFilesystemOp =
  rf_backoff :: exponentialBackoff
  rf_tag :: FilesystemTag

record attachFilesystemOp =
  af_backoff :: exponentialBackoff
  af_args :: FilesystemAttachmentParams

record detachFilesystemOp =
  df_backoff :: exponentialBackoff
  df_args :: FilesystemAttachmentParams

text \<open>
  A \<^verbatim>\<open>scheduleOp\<close> is an interface value holding a pointer to one of the four
  operation types; the pointer that a map lookup gives for a missing key is nil.
\<close>

datatype scheduleOp =
    OpCreate "createFilesystemOp option"
  | OpRemove "removeFilesystemOp option"
  | OpAttach "attachFilesystemOp option"
  | OpDetach "detachFilesystemOp option"

text \<open>
  The events. A bulk call of a provider carries the name of the source and the
  arguments. The helpers \<^verbatim>\<open>scheduleOperations\<close>, \<^verbatim>\<open>setStatus\<close> and
  \<^verbatim>\<open>removePendingFilesystemAttachment\<close> are outside these sources: a call of one of them
  is the event of the call with its arguments, and so are the calls of the controller
  facade. The two log events are the \<^verbatim>\<open>Errorf\<close> for a filesystem that the controller
  did not accept and the \<^verbatim>\<open>Criticalf\<close> of the detach loop.
\<close>

datatype event =
    Provider_CreateFilesystems string "FilesystemParams list"
  | Provider_AttachFilesystems string "FilesystemAttachmentParams list"
  | Provider_DetachFilesystems string "FilesystemAttachmentParams list"
  | Provider_DestroyFilesystems string "string list"
  | Provider_ReleaseFilesystems string "string list"
  | Called_scheduleOperations "scheduleOp list"
  | Called_setStatus "EntityStatusArgs list"
  | Called_SetFilesystemInfo "params_Filesystem list"
  | Called_SetFilesystemAttachmentInfo "params_FilesystemAttachment list"
  | Called_removeEntities "FilesystemTag list"
  | Called_removeAttachments "MachineStorageId list"
  | Called_removePendingFilesystemAttachment MachineStorageId
  | Logged_Errorf_publishing string error
  | Logged_Criticalf

text \<open>
  The worker's context: its configuration (storage directory, provider registry,
  controller facades), the managed filesystem source and the local caches.
  \<open>Registry\<close> stands for the helper \<^verbatim>\<open>filesystemSource\<close> applied to the registry: for a
  provider type it gives a source, \<^verbatim>\<open>errNonDynamic\<close>, or another error. The managed
  source and a source given by the registry are never nil, and neither is the
  operation stored under a key of an operations map; the only nil source is the one
  that \<open>filesystemParamsBySource\<close> records for a non-dynamic provider.
\<close>

record "context" =
  StorageDir :: string
  Registry :: "string \<Rightarrow> error + FilesystemSource"
  SetFilesystemInfo :: "params_Filesystem list \<Rightarrow> error + error option list"
  SetFilesystemAttachmentInfo :: "params_FilesystemAttachment list \<Rightarrow> error + error option list"
  RemoveFilesystemParams_api :: "FilesystemTag list \<Rightarrow> error + RemoveFilesystemParams list"
  Remove_api :: "FilesystemTag list \<Rightarrow> error option"
  RemoveAttachments_api :: "MachineStorageId list \<Rightarrow> error option"
  managedFilesystemSource :: FilesystemSource
  filesystems :: "FilesystemTag \<rightharpoonup> Filesystem"
  filesystemAttachments :: "MachineStorageId \<rightharpoonup> FilesystemAttachment"
  IsCAASModel :: bool

subsection \<open>Go maps\<close>

text \<open>
  \<open>append_at m k v\<close> is \<^verbatim>\<open>m[k] = append(m[k], v)\<close> on a map of slices. \<open>range_order\<close>
  is the order in which a \<^verbatim>\<open>range\<close> loop visits the entries of a map: the language
  leaves it open, so it is chosen by a list of numbers, each picking the next entry
  among those not visited yet.
\<close>

fun append_at :: "('k \<times> 'v list) list \<Rightarrow> 'k \<Rightarrow> 'v \<Rightarrow> ('k \<times> 'v list) list" where
  "append_at [] k v = [(k, [v])]"
| "append_at ((k', vs) # m) k v =
     (if k' = k then (k', vs @ [v]) # m else (k', vs) # append_at m k v)"

fun range_order :: "nat list \<Rightarrow> 'a list \<Rightarrow> 'a list" where
  "range_order [] xs = xs"
| "range_order (c # cs) [] = []"
| "range_order (c # cs) (x # xs) =
     (let i = c mod length (x # xs)
      in ((x # xs) ! i) # range_order cs (take i (x # xs) @ drop (Suc i) (x # xs)))"

text \<open>\<^verbatim>\<open>sources[name]\<close>: a missing key and a recorded nil both read as nil.\<close>

definition lookup_source :: "(string \<rightharpoonup> FilesystemSource option) \<Rightarrow> string \<Rightarrow> FilesystemSource option" where
  "lookup_source filesystemSources sourceName =
     (case filesystemSources sourceName of None \<Rightarrow> None | Some s \<Rightarrow> s)"

subsection \<open>Helpers of the package that the operations call\<close>

text \<open>
  Modelled from the spec: \<^verbatim>\<open>filesystemSource\<close>, the resolver of a provider type
  (\<^verbatim>\<open>ResolveDynamicSource(providerType) -> source | NonDynamicError\<close>, or another
  error). The storage directory and the source name only configure the source.
\<close>

definition filesystemSource ::
  "string \<Rightarrow> string \<Rightarrow> string \<Rightarrow> (string \<Rightarrow> error + FilesystemSource) \<Rightarrow> error + FilesystemSource" where
  "filesystemSource baseStorageDir sourceName providerType registry = registry providerType"

text \<open>
  Modelled from the spec: \<^verbatim>\<open>updateFilesystem\<close> merges a created filesystem into the
  local cache.
\<close>

definition updateFilesystem :: "context \<Rightarrow> Filesystem \<Rightarrow> context" where
  "updateFilesystem ctx v = ctx\<lparr>filesystems := (filesystems ctx)(fs_Tag v \<mapsto> v)\<rparr>"

text \<open>
  Modelled from the spec: \<^verbatim>\<open>removeFilesystemParams\<close> asks the controller for the
  removal parameters of the tags (\<^verbatim>\<open>GetRemoveParams(tags)\<close>); \<^verbatim>\<open>removeEntities\<close> and
  \<^verbatim>\<open>removeAttachments\<close> remove entities from controller state (\<^verbatim>\<open>Remove(tags) -> error\<close>).
\<close>

definition removeFilesystemParams :: "context \<Rightarrow> FilesystemTag list \<Rightarrow> error + RemoveFilesystemParams list" where
  "removeFilesystemParams ctx tags = RemoveFilesystemParams_api ctx tags"

definition removeEntities :: "context \<Rightarrow> FilesystemTag list \<Rightarrow> error option" where
  "removeEntities ctx tags = Remove_api ctx tags"

definition removeAttachments :: "context \<Rightarrow> MachineStorageId list \<Rightarrow> error option" where
  "removeAttachments ctx ids = RemoveAttachments_api ctx ids"

subsection \<open>The local variables of an executor\<close>

text \<open>
  Every executor accumulates three slices over its per-source loop: \<^verbatim>\<open>reschedule\<close>,
  \<^verbatim>\<open>statuses\<close>, and the entities to publish (\<^verbatim>\<open>filesystems\<close>, \<^verbatim>\<open>filesystemAttachments\<close>
  or \<^verbatim>\<open>remove\<close>, here \<open>collected\<close>). \<open>trace\<close> is the list of events so far. A loop
  that returns early or panics gives the outcome and the events up to there.
\<close>

record 'a locals =
  reschedule :: "scheduleOp list"
  statuses :: "EntityStatusArgs list"
  collected :: "'a list"
  trace :: "event list"

definition no_locals :: "'a locals" where
  "no_locals = \<lparr>reschedule = [], statuses = [], collected = [], trace = []\<rparr>"

type_synonym 'a loop_result = "(outcome \<times> event list) + 'a locals"

subsection \<open>filesystemParamsBySource\<close>

text \<open>The first loop: one source for each provider name, decided by the first parameter of that name.\<close>

fun filesystemParamsBySource_sources ::
  "string \<Rightarrow> FilesystemParams list \<Rightarrow> FilesystemSource \<Rightarrow> (string \<Rightarrow> error + FilesystemSource)
   \<Rightarrow> (string \<rightharpoonup> FilesystemSource option) \<Rightarrow> error + (string \<rightharpoonup> FilesystemSource option)" where
  "filesystemParamsBySource_sources baseStorageDir [] managed registry filesystemSources =
     Inr filesystemSources"
| "filesystemParamsBySource_sources baseStorageDir (p # ps) managed registry filesystemSources =
     (let sourceName = fp_Provider p in
      case filesystemSources sourceName of
        Some _ \<Rightarrow> filesystemParamsBySource_sources baseStorageDir ps managed registry filesystemSources
      | None \<Rightarrow>
          if fp_Volume p \<noteq> VolumeTag [] then
            filesystemParamsBySource_sources baseStorageDir ps managed registry
              (filesystemSources(sourceName \<mapsto> Some managed))
          else
            (case filesystemSource baseStorageDir sourceName (fp_Provider p) registry of
               Inl err \<Rightarrow>
                 if Cause err = errNonDynamic then
                   filesystemParamsBySource_sources baseStorageDir ps managed registry
                     (filesystemSources(sourceName \<mapsto> None))
                 else Inl (Annotated ''getting filesystem source'' err)
             | Inr src \<Rightarrow>
                 filesystemParamsBySource_sources baseStorageDir ps managed registry
                   (filesystemSources(sourceName \<mapsto> Some src))))"

text \<open>The second loop: a parameter whose source is nil is left out.\<close>

fun filesystemParamsBySource_partition ::
  "FilesystemParams list \<Rightarrow> (string \<rightharpoonup> FilesystemSource option)
   \<Rightarrow> (string \<times> FilesystemParams list) list \<Rightarrow> (string \<times> FilesystemParams list) list" where
  "filesystemParamsBySource_partition [] filesystemSources paramsBySource = paramsBySource"
| "filesystemParamsBySource_partition (p # ps) filesystemSources paramsBySource =
     (let sourceName = fp_Provider p in
      case lookup_source filesystemSources sourceName of
        None \<Rightarrow> filesystemParamsBySource_partition ps filesystemSources paramsBySource
      | Some _ \<Rightarrow>
          filesystemParamsBySource_partition ps filesystemSources
            (append_at paramsBySource sourceName p))"

definition filesystemParamsBySource ::
  "string \<Rightarrow> FilesystemParams list \<Rightarrow> FilesystemSource \<Rightarrow> (string \<Rightarrow> error + FilesystemSource)
   \<Rightarrow> error + ((string \<times> FilesystemParams list) list \<times> (string \<rightharpoonup> FilesystemSource option))" where
  "filesystemParamsBySource baseStorageDir params managed registry =
     (case filesystemParamsBySource_sources baseStorageDir params managed registry Map.empty of
        Inl err \<Rightarrow> Inl err
      | Inr filesystemSources \<Rightarrow>
          Inr (filesystemParamsBySource_partition params filesystemSources [], filesystemSources))"

subsection \<open>validateFilesystemParams\<close>

fun validateFilesystemParams ::
  "FilesystemSource \<Rightarrow> FilesystemParams list \<Rightarrow> FilesystemParams list \<times> error option list" where
  "validateFilesystemParams src [] = ([], [])"
| "validateFilesystemParams src (p # ps) =
     (let (valid, results) = validateFilesystemParams src ps in
      case ValidateFilesystemParams src p of
        None \<Rightarrow> (p # valid, None # results)
      | Some err \<Rightarrow> (valid, Some err # results))"

subsection \<open>filesystemAttachmentParamsBySource\<close>

fun filesystemAttachmentParamsBySource_loop ::
  "string \<Rightarrow> FilesystemAttachmentParams list \<Rightarrow> (FilesystemTag \<rightharpoonup> Filesystem) \<Rightarrow> FilesystemSource
   \<Rightarrow> (string \<Rightarrow> error + FilesystemSource)
   \<Rightarrow> (string \<times> FilesystemAttachmentParams list) list \<Rightarrow> (string \<rightharpoonup> FilesystemSource option)
   \<Rightarrow> error + ((string \<times> FilesystemAttachmentParams list) list \<times> (string \<rightharpoonup> FilesystemSource option))" where
  "filesystemAttachmentParamsBySource_loop baseStorageDir [] fss managed registry paramsBySource filesystemSources =
     Inr (paramsBySource, filesystemSources)"
| "filesystemAttachmentParamsBySource_loop baseStorageDir (p # ps) fss managed registry paramsBySource filesystemSources =
     (let sourceName = ap_Provider p;
          paramsBySource' = append_at paramsBySource sourceName p
      in
      case filesystemSources sourceName of
        Some _ \<Rightarrow>
          filesystemAttachmentParamsBySource_loop baseStorageDir ps fss managed registry
            paramsBySource' filesystemSources
      | None \<Rightarrow>
          (case fss (ap_Filesystem p) of
             None \<Rightarrow>
               filesystemAttachmentParamsBySource_loop baseStorageDir ps fss managed registry
                 paramsBySource' (filesystemSources(sourceName \<mapsto> Some managed))
           | Some filesystem \<Rightarrow>
               if fs_Volume filesystem \<noteq> VolumeTag [] then
                 filesystemAttachmentParamsBySource_loop baseStorageDir ps fss managed registry
                   paramsBySource' (filesystemSources(sourceName \<mapsto> Some managed))
               else
                 (case filesystemSource baseStorageDir sourceName (ap_Provider p) registry of
                    Inl err \<Rightarrow> Inl (Annotated ''getting filesystem source'' err)
                  | Inr src \<Rightarrow>
                      filesystemAttachmentParamsBySource_loop baseStorageDir ps fss managed registry
                        paramsBySource' (filesystemSources(sourceName \<mapsto> Some src)))))"

definition filesystemAttachmentParamsBySource ::
  "string \<Rightarrow> FilesystemAttachmentParams list \<Rightarrow> (FilesystemTag \<rightharpoonup> Filesystem) \<Rightarrow> FilesystemSource
   \<Rightarrow> (string \<Rightarrow> error + FilesystemSource)
   \<Rightarrow> error + ((string \<times> FilesystemAttachmentParams list) list \<times> (string \<rightharpoonup> FilesystemSource option))" where
  "filesystemAttachmentParamsBySource baseStorageDir filesystemAttachmentParams fss managed registry =
     filesystemAttachmentParamsBySource_loop baseStorageDir filesystemAttachmentParams fss managed
       registry [] Map.empty"

subsection \<open>Conversions to the wire types\<close>

definition filesystemsFromStorage :: "Filesystem list \<Rightarrow> params_Filesystem list" where
  "filesystemsFromStorage inp =
     map (\<lambda>f. \<lparr>pf_FilesystemTag = FilesystemTag_String (fs_Tag f),
               pf_VolumeTag = (if fs_Volume f \<noteq> VolumeTag [] then VolumeTag_String (fs_Volume f) else []),
               pf_FilesystemId = fs_FilesystemId f,
               pf_Pool = [],
               pf_Size = fs_Size f\<rparr>) inp"

definition filesystemAttachmentsFromStorage :: "FilesystemAttachment list \<Rightarrow> params_FilesystemAttachment list" where
  "filesystemAttachmentsFromStorage inp =
     map (\<lambda>f. \<lparr>pa_FilesystemTag = FilesystemTag_String (fa_Filesystem f),
               pa_MachineTag = MachineTag_String (fa_Machine f),
               pa_MountPoint = fa_Path f,
               pa_ReadOnly = fa_ReadOnly f\<rparr>) inp"

subsection \<open>The per-source loop\<close>

text \<open>
  \<^verbatim>\<open>for sourceName, params := range paramsBySource { body }\<close> where the body may return
  from the executor.
\<close>

fun range_sources ::
  "(string \<Rightarrow> 'p list \<Rightarrow> 'a locals \<Rightarrow> 'a loop_result) \<Rightarrow> (string \<times> 'p list) list
   \<Rightarrow> 'a locals \<Rightarrow> 'a loop_result" where
  "range_sources body [] acc = Inr acc"
| "range_sources body ((sourceName, ps) # rest) acc =
     (case body sourceName ps acc of
        Inl stop \<Rightarrow> Inl stop
      | Inr acc' \<Rightarrow> range_sources body rest acc')"

text \<open>The two calls that flush the accumulated reschedule list and status records.\<close>

definition flush :: "'a locals \<Rightarrow> event list" where
  "flush acc = trace acc @ [Called_scheduleOperations (reschedule acc), Called_setStatus (statuses acc)]"

subsection \<open>createFilesystems\<close>

text \<open>
  Lines 42 to 55: one status record for every validation error. The index \<open>i\<close> of an
  error is used on \<^verbatim>\<open>filesystemParams\<close>; out of range it panics (\<open>None\<close>).
\<close>

fun createFilesystems_validationErrors ::
  "FilesystemParams list \<Rightarrow> error option list \<Rightarrow> EntityStatusArgs list option" where
  "createFilesystems_validationErrors ps [] = Some []"
| "createFilesystems_validationErrors ps (None # errs) = createFilesystems_validationErrors (tl ps) errs"
| "createFilesystems_validationErrors [] (Some err # errs) = None"
| "createFilesystems_validationErrors (p # ps) (Some err # errs) =
     (case createFilesystems_validationErrors ps errs of
        None \<Rightarrow> None
      | Some sts \<Rightarrow>
          Some (\<lparr>es_Tag = FilesystemTag_String (fp_Tag p),
                  es_Status = Status_String status_Error,
                  es_Info = error_Error err\<rparr> # sts))"

text \<open>
  Lines 64 to 88: the results of the bulk call, the i-th result read against the i-th
  submitted parameter. A result beyond the parameters, or a result with neither an
  error nor a filesystem, panics.
\<close>

fun createFilesystems_results ::
  "(FilesystemTag \<times> createFilesystemOp) list \<Rightarrow> FilesystemParams list \<Rightarrow> CreateFilesystemsResult list
   \<Rightarrow> Filesystem locals \<Rightarrow> Filesystem locals option" where
  "createFilesystems_results ops ps [] acc = Some acc"
| "createFilesystems_results ops [] (r # rs) acc = None"
| "createFilesystems_results ops (p # ps) (r # rs) acc =
     (case cr_Error r of
        Some err \<Rightarrow>
          createFilesystems_results ops ps rs
            (acc\<lparr>reschedule := reschedule acc @ [OpCreate (map_of ops (fp_Tag p))],
                 statuses := statuses acc @
                   [\<lparr>es_Tag = FilesystemTag_String (fp_Tag p),
                     es_Status = Status_String status_Pending,
                     es_Info = error_Error err\<rparr>]\<rparr>)
      | None \<Rightarrow>
          (case cr_Filesystem r of
             None \<Rightarrow> None
           | Some fs \<Rightarrow>
               createFilesystems_results ops ps rs
                 (acc\<lparr>statuses := statuses acc @
                        [\<lparr>es_Tag = FilesystemTag_String (fp_Tag p),
                          es_Status = Status_String status_Attaching,
                          es_Info = []\<rparr>],
                      collected := collected acc @ [fs]\<rparr>)))"

text \<open>Lines 36 to 89: the body of the per-source loop.\<close>

definition createFilesystems_source ::
  "(FilesystemTag \<times> createFilesystemOp) list \<Rightarrow> (string \<rightharpoonup> FilesystemSource option)
   \<Rightarrow> string \<Rightarrow> FilesystemParams list \<Rightarrow> Filesystem locals \<Rightarrow> Filesystem loop_result" where
  "createFilesystems_source ops filesystemSources sourceName filesystemParams acc =
     (case lookup_source filesystemSources sourceName of
        None \<Rightarrow> if filesystemParams = [] then Inr acc else Inl (Panic, trace acc)
      | Some src \<Rightarrow>
          (let (validFilesystemParams, validationErrors) =
                 validateFilesystemParams src filesystemParams
           in
           case createFilesystems_validationErrors filesystemParams validationErrors of
             None \<Rightarrow> Inl (Panic, trace acc)
           | Some sts \<Rightarrow>
               (let acc1 = acc\<lparr>statuses := statuses acc @ sts\<rparr> in
                if validFilesystemParams = [] then Inr acc1
                else
                  (let acc2 = acc1\<lparr>trace := trace acc1 @
                         [Provider_CreateFilesystems sourceName validFilesystemParams]\<rparr>
                   in
                   case CreateFilesystems src validFilesystemParams of
                     Inl err \<Rightarrow>
                       Inl (Return (Some (Annotated
                              (''creating filesystems from source '' @ fmt_q sourceName) err)),
                            trace acc2)
                   | Inr results \<Rightarrow>
                       (case createFilesystems_results ops validFilesystemParams results acc2 of
                          None \<Rightarrow> Inl (Panic, trace acc2)
                        | Some acc3 \<Rightarrow> Inr acc3)))))"

text \<open>
  Lines 103 to 111: the per-entity results of \<^verbatim>\<open>SetFilesystemInfo\<close>; each error is logged
  with the identifier of the i-th filesystem.
\<close>

fun createFilesystems_errorResults :: "Filesystem list \<Rightarrow> error option list \<Rightarrow> event list option" where
  "createFilesystems_errorResults fss [] = Some []"
| "createFilesystems_errorResults fss (None # rs) = createFilesystems_errorResults (tl fss) rs"
| "createFilesystems_errorResults [] (Some err # rs) = None"
| "createFilesystems_errorResults (f # fss) (Some err # rs) =
     (case createFilesystems_errorResults fss rs of
        None \<Rightarrow> None
      | Some logs \<Rightarrow> Some (Logged_Errorf_publishing (FilesystemTag_Id (fs_Tag f)) err # logs))"

text \<open>Lines 90 to 115: the flush, the bulk persistence call and the update of the cache.\<close>

definition createFilesystems_publish :: "context \<Rightarrow> Filesystem locals \<Rightarrow> outcome \<times> context \<times> event list" where
  "createFilesystems_publish ctx acc =
     (let tr = flush acc; fss = collected acc in
      if fss = [] then (Return None, ctx, tr)
      else
        (let tr1 = tr @ [Called_SetFilesystemInfo (filesystemsFromStorage fss)] in
         case SetFilesystemInfo ctx (filesystemsFromStorage fss) of
           Inl err \<Rightarrow> (Return (Some (Annotated ''publishing filesystems to state'' err)), ctx, tr1)
         | Inr errorResults \<Rightarrow>
             (case createFilesystems_errorResults fss errorResults of
                None \<Rightarrow> (Panic, ctx, tr1)
              | Some logs \<Rightarrow> (Return None, foldl updateFilesystem ctx fss, tr1 @ logs))))"

definition createFilesystems ::
  "nat list \<Rightarrow> context \<Rightarrow> (FilesystemTag \<times> createFilesystemOp) list \<Rightarrow> outcome \<times> context \<times> event list" where
  "createFilesystems seed ctx ops =
     (let filesystemParams = map (\<lambda>(tag, op). cf_args op) ops in
      case filesystemParamsBySource (StorageDir ctx) filesystemParams
             (managedFilesystemSource ctx) (Registry ctx) of
        Inl err \<Rightarrow> (Return (Some (Traced err)), ctx, [])
      | Inr (paramsBySource, filesystemSources) \<Rightarrow>
          (case range_sources (createFilesystems_source ops filesystemSources)
                  (range_order seed paramsBySource) no_locals of
             Inl (out, tr) \<Rightarrow> (out, ctx, tr)
           | Inr acc \<Rightarrow> createFilesystems_publish ctx acc))"

subsection \<open>attachFilesystems\<close>

fun FilesystemTag_Readable :: "FilesystemTag \<Rightarrow> string" where
  "FilesystemTag_Readable (FilesystemTag i) = ''filesystem '' @ i"

fun MachineTag_Readable :: "MachineTag \<Rightarrow> string" where
  "MachineTag_Readable (MachineTag i) = ''machine '' @ i"

text \<open>Lines 122 to 126: the arguments of an operation, with the default mount path.\<close>

definition attachFilesystems_args :: "context \<Rightarrow> attachFilesystemOp \<Rightarrow> FilesystemAttachmentParams" where
  "attachFilesystems_args ctx op =
     (let args = af_args op in
      if ap_Path args = [] then
        args\<lparr>ap_Path := filepath_Join [StorageDir ctx, FilesystemTag_Id (ap_Filesystem args)]\<rparr>
      else args)"

definition machineStorageId :: "FilesystemAttachmentParams \<Rightarrow> MachineStorageId" where
  "machineStorageId p =
     \<lparr>ms_MachineTag = MachineTag_String (ap_Machine p),
      ms_AttachmentTag = FilesystemTag_String (ap_Filesystem p)\<rparr>"

fun attachFilesystems_results ::
  "(MachineStorageId \<times> attachFilesystemOp) list \<Rightarrow> FilesystemAttachmentParams list
   \<Rightarrow> AttachFilesystemsResult list \<Rightarrow> FilesystemAttachment locals \<Rightarrow> FilesystemAttachment locals option" where
  "attachFilesystems_results ops ps [] acc = Some acc"
| "attachFilesystems_results ops [] (r # rs) acc = None"
| "attachFilesystems_results ops (p # ps) (r # rs) acc =
     (case ar_Error r of
        Some err \<Rightarrow>
          attachFilesystems_results ops ps rs
            (acc\<lparr>reschedule := reschedule acc @ [OpAttach (map_of ops (machineStorageId p))],
                 statuses := statuses acc @
                   [\<lparr>es_Tag = FilesystemTag_String (ap_Filesystem p),
                     es_Status = Status_String status_Attaching,
                     es_Info = error_Error err\<rparr>]\<rparr>)
      | None \<Rightarrow>
          (case ar_FilesystemAttachment r of
             None \<Rightarrow> None
           | Some fa \<Rightarrow>
               attachFilesystems_results ops ps rs
                 (acc\<lparr>statuses := statuses acc @
                        [\<lparr>es_Tag = FilesystemTag_String (ap_Filesystem p),
                          es_Status = Status_String status_Attached,
                          es_Info = []\<rparr>],
                      collected := collected acc @ [fa]\<rparr>)))"

definition attachFilesystems_source ::
  "(MachineStorageId \<times> attachFilesystemOp) list \<Rightarrow> (string \<rightharpoonup> FilesystemSource option)
   \<Rightarrow> string \<Rightarrow> FilesystemAttachmentParams list \<Rightarrow> FilesystemAttachment locals
   \<Rightarrow> FilesystemAttachment loop_result" where
  "attachFilesystems_source ops filesystemSources sourceName filesystemAttachmentParams acc =
     (case lookup_source filesystemSources sourceName of
        None \<Rightarrow> Inl (Panic, trace acc)
      | Some src \<Rightarrow>
          (let acc1 = acc\<lparr>trace := trace acc @
                 [Provider_AttachFilesystems sourceName filesystemAttachmentParams]\<rparr>
           in
           case AttachFilesystems src filesystemAttachmentParams of
             Inl err \<Rightarrow>
               Inl (Return (Some (Annotated
                      (''attaching filesystems from source '' @ fmt_q sourceName) err)),
                    trace acc1)
           | Inr results \<Rightarrow>
               (case attachFilesystems_results ops filesystemAttachmentParams results acc1 of
                  None \<Rightarrow> Inl (Panic, trace acc1)
                | Some acc2 \<Rightarrow> Inr acc2)))"

text \<open>
  Lines 476 to 491 of \<^verbatim>\<open>setFilesystemAttachmentInfo\<close>: the per-entity results; the first
  error is returned, and every attachment before it is recorded in the context.
\<close>

definition filesystemAttachmentId :: "FilesystemAttachment \<Rightarrow> MachineStorageId" where
  "filesystemAttachmentId fa =
     \<lparr>ms_MachineTag = MachineTag_String (fa_Machine fa),
      ms_AttachmentTag = FilesystemTag_String (fa_Filesystem fa)\<rparr>"

fun setFilesystemAttachmentInfo_results ::
  "FilesystemAttachment list \<Rightarrow> error option list \<Rightarrow> context \<Rightarrow> event list
   \<Rightarrow> outcome \<times> context \<times> event list" where
  "setFilesystemAttachmentInfo_results fas [] ctx ev = (Return None, ctx, ev)"
| "setFilesystemAttachmentInfo_results [] (r # rs) ctx ev = (Panic, ctx, ev)"
| "setFilesystemAttachmentInfo_results (fa # fas) (Some err # rs) ctx ev =
     (Return (Some (Annotated
        (''publishing attachment of '' @ FilesystemTag_Readable (fa_Filesystem fa) @ '' to ''
           @ MachineTag_Readable (fa_Machine fa) @ '' to state'') err)), ctx, ev)"
| "setFilesystemAttachmentInfo_results (fa # fas) (None # rs) ctx ev =
     (let id = filesystemAttachmentId fa
      in setFilesystemAttachmentInfo_results fas rs
           (ctx\<lparr>filesystemAttachments := (filesystemAttachments ctx)(id \<mapsto> fa)\<rparr>)
           (ev @ [Called_removePendingFilesystemAttachment id]))"

definition setFilesystemAttachmentInfo ::
  "context \<Rightarrow> FilesystemAttachment list \<Rightarrow> outcome \<times> context \<times> event list" where
  "setFilesystemAttachmentInfo ctx filesystemAttachments_list =
     (if filesystemAttachments_list = [] then (Return None, ctx, [])
      else
        (let ev = [Called_SetFilesystemAttachmentInfo
                     (filesystemAttachmentsFromStorage filesystemAttachments_list)]
         in
         case SetFilesystemAttachmentInfo ctx
                (filesystemAttachmentsFromStorage filesystemAttachments_list) of
           Inl err \<Rightarrow> (Return (Some (Annotated ''publishing filesystems to state'' err)), ctx, ev)
         | Inr errorResults \<Rightarrow>
             setFilesystemAttachmentInfo_results filesystemAttachments_list errorResults ctx ev))"

text \<open>Lines 180 to 185: the flush and the publication of the attachments.\<close>

definition attachFilesystems_publish ::
  "context \<Rightarrow> FilesystemAttachment locals \<Rightarrow> outcome \<times> context \<times> event list" where
  "attachFilesystems_publish ctx acc =
     (case setFilesystemAttachmentInfo ctx (collected acc) of
        (Return (Some err), ctx', ev) \<Rightarrow> (Return (Some (Traced err)), ctx', flush acc @ ev)
      | (out, ctx', ev) \<Rightarrow> (out, ctx', flush acc @ ev))"

definition attachFilesystems ::
  "nat list \<Rightarrow> context \<Rightarrow> (MachineStorageId \<times> attachFilesystemOp) list \<Rightarrow> outcome \<times> context \<times> event list" where
  "attachFilesystems seed ctx ops =
     (let filesystemAttachmentParams = map (\<lambda>(id, op). attachFilesystems_args ctx op) ops in
      case filesystemAttachmentParamsBySource (StorageDir ctx) filesystemAttachmentParams
             (filesystems ctx) (managedFilesystemSource ctx) (Registry ctx) of
        Inl err \<Rightarrow> (Return (Some (Traced err)), ctx, [])
      | Inr (paramsBySource, filesystemSources) \<Rightarrow>
          (case range_sources (attachFilesystems_source ops filesystemSources)
                  (range_order seed paramsBySource) no_locals of
             Inl (out, tr) \<Rightarrow> (out, ctx, tr)
           | Inr acc \<Rightarrow> attachFilesystems_publish ctx acc))"

subsection \<open>removeFilesystems\<close>

text \<open>
  \<^verbatim>\<open>partitionRemoveFilesystemParams\<close>: the i-th parameters go with the i-th tag; a
  parameter beyond the tags panics.
\<close>

fun partitionRemoveFilesystemParams ::
  "FilesystemTag list \<Rightarrow> RemoveFilesystemParams list
   \<Rightarrow> (FilesystemTag list \<times> string list \<times> FilesystemTag list \<times> string list) option" where
  "partitionRemoveFilesystemParams removeTags [] = Some ([], [], [], [])"
| "partitionRemoveFilesystemParams [] (args # removeParams) = None"
| "partitionRemoveFilesystemParams (tag # removeTags) (args # removeParams) =
     (case partitionRemoveFilesystemParams removeTags removeParams of
        None \<Rightarrow> None
      | Some (destroyTags, destroyIds, releaseTags, releaseIds) \<Rightarrow>
          if rp_Destroy args then
            Some (tag # destroyTags, rp_FilesystemId args # destroyIds, releaseTags, releaseIds)
          else
            Some (destroyTags, destroyIds, tag # releaseTags, rp_FilesystemId args # releaseIds))"

text \<open>Lines 227 to 240: the per-entity results of a destroy or release call.\<close>

fun removeFilesystems_errs ::
  "(FilesystemTag \<times> removeFilesystemOp) list \<Rightarrow> FilesystemTag list \<Rightarrow> error option list
   \<Rightarrow> FilesystemTag locals \<Rightarrow> FilesystemTag locals option" where
  "removeFilesystems_errs ops tags [] acc = Some acc"
| "removeFilesystems_errs ops [] (e # errs) acc = None"
| "removeFilesystems_errs ops (tag # tags) (None # errs) acc =
     removeFilesystems_errs ops tags errs (acc\<lparr>collected := collected acc @ [tag]\<rparr>)"
| "removeFilesystems_errs ops (tag # tags) (Some err # errs) acc =
     removeFilesystems_errs ops tags errs
       (acc\<lparr>reschedule := reschedule acc @ [OpRemove (map_of ops tag)],
            statuses := statuses acc @
              [\<lparr>es_Tag = FilesystemTag_String tag,
                es_Status = Status_String status_Destroying,
                es_Info = error_Error err\<rparr>]\<rparr>)"

text \<open>
  Lines 219 to 242: the local function \<^verbatim>\<open>removeFilesystems\<close>, given the provider method
  \<open>f\<close> and the event \<open>called\<close> that records its call.
\<close>

definition removeFilesystems_func ::
  "(FilesystemTag \<times> removeFilesystemOp) list \<Rightarrow> FilesystemTag list \<Rightarrow> string list
   \<Rightarrow> (string list \<Rightarrow> event) \<Rightarrow> (string list \<Rightarrow> error + error option list)
   \<Rightarrow> FilesystemTag locals \<Rightarrow> FilesystemTag loop_result" where
  "removeFilesystems_func ops tags ids called f acc =
     (if ids = [] then Inr acc
      else
        (let acc1 = acc\<lparr>trace := trace acc @ [called ids]\<rparr> in
         case f ids of
           Inl err \<Rightarrow> Inl (Return (Some (Traced err)), trace acc1)
         | Inr errs \<Rightarrow>
             (case removeFilesystems_errs ops tags errs acc1 of
                None \<Rightarrow> Inl (Panic, trace acc1)
              | Some acc2 \<Rightarrow> Inr acc2)))"

text \<open>The caller traces the error of the local function once more.\<close>

fun traced :: "'a loop_result \<Rightarrow> 'a loop_result" where
  "traced (Inl (Return (Some err), tr)) = Inl (Return (Some (Traced err)), tr)"
| "traced r = r"

definition zero_RemoveFilesystemParams :: RemoveFilesystemParams where
  "zero_RemoveFilesystemParams = \<lparr>rp_Provider = [], rp_FilesystemId = [], rp_Destroy = False\<rparr>"

definition zero_FilesystemParams :: FilesystemParams where
  "zero_FilesystemParams =
     \<lparr>fp_Tag = FilesystemTag [], fp_Volume = VolumeTag [], fp_Size = 0, fp_Provider = []\<rparr>"

text \<open>Lines 243 to 263: the body of the per-source loop.\<close>

definition removeFilesystems_source ::
  "(FilesystemTag \<times> removeFilesystemOp) list \<Rightarrow> (FilesystemTag \<rightharpoonup> RemoveFilesystemParams)
   \<Rightarrow> (string \<rightharpoonup> FilesystemSource option)
   \<Rightarrow> string \<Rightarrow> FilesystemParams list \<Rightarrow> FilesystemTag locals \<Rightarrow> FilesystemTag loop_result" where
  "removeFilesystems_source ops removeFilesystemParamsByTag filesystemSources sourceName filesystemParams acc =
     (let removeTags = map fp_Tag filesystemParams;
          removeParams = map (\<lambda>args. case removeFilesystemParamsByTag (fp_Tag args) of
                                        None \<Rightarrow> zero_RemoveFilesystemParams
                                      | Some a \<Rightarrow> a) filesystemParams
      in
      case partitionRemoveFilesystemParams removeTags removeParams of
        None \<Rightarrow> Inl (Panic, trace acc)
      | Some (destroyTags, destroyIds, releaseTags, releaseIds) \<Rightarrow>
          (case lookup_source filesystemSources sourceName of
             None \<Rightarrow> Inl (Panic, trace acc)
           | Some src \<Rightarrow>
               (case traced (removeFilesystems_func ops destroyTags destroyIds
                               (Provider_DestroyFilesystems sourceName) (DestroyFilesystems src) acc) of
                  Inl stop \<Rightarrow> Inl stop
                | Inr acc1 \<Rightarrow>
                    traced (removeFilesystems_func ops releaseTags releaseIds
                              (Provider_ReleaseFilesystems sourceName) (ReleaseFilesystems src) acc1))))"

text \<open>
  Lines 198 to 206: the parameters by tag and the filesystem parameters handed to
  \<^verbatim>\<open>filesystemParamsBySource\<close>. The slice has one entry for each tag; with more removal
  parameters than tags the index panics, with fewer the rest stays zero.
\<close>

definition removeFilesystems_params ::
  "FilesystemTag list \<Rightarrow> RemoveFilesystemParams list
   \<Rightarrow> ((FilesystemTag \<rightharpoonup> RemoveFilesystemParams) \<times> FilesystemParams list) option" where
  "removeFilesystems_params tags rps =
     (if length tags < length rps then None
      else Some (Map.empty(tags [\<mapsto>] rps),
                 map (\<lambda>(tag, args). \<lparr>fp_Tag = tag, fp_Volume = VolumeTag [], fp_Size = 0,
                                      fp_Provider = rp_Provider args\<rparr>) (zip tags rps)
                 @ replicate (length tags - length rps) zero_FilesystemParams))"

text \<open>Lines 264 to 269: the flush and the removal from controller state.\<close>

definition removeFilesystems_publish ::
  "context \<Rightarrow> FilesystemTag locals \<Rightarrow> outcome \<times> context \<times> event list" where
  "removeFilesystems_publish ctx acc =
     (let tr = flush acc @ [Called_removeEntities (collected acc)] in
      case removeEntities ctx (collected acc) of
        Some err \<Rightarrow> (Return (Some (Annotated ''removing filesystems from state'' err)), ctx, tr)
      | None \<Rightarrow> (Return None, ctx, tr))"

definition removeFilesystems ::
  "nat list \<Rightarrow> context \<Rightarrow> (FilesystemTag \<times> removeFilesystemOp) list \<Rightarrow> outcome \<times> context \<times> event list" where
  "removeFilesystems seed ctx ops =
     (let tags = map fst ops in
      case removeFilesystemParams ctx tags of
        Inl err \<Rightarrow> (Return (Some (Traced err)), ctx, [])
      | Inr rps \<Rightarrow>
          (case removeFilesystems_params tags rps of
             None \<Rightarrow> (Panic, ctx, [])
           | Some (removeFilesystemParamsByTag, filesystemParams) \<Rightarrow>
               (case filesystemParamsBySource (StorageDir ctx) filesystemParams
                       (managedFilesystemSource ctx) (Registry ctx) of
                  Inl err \<Rightarrow> (Return (Some (Traced err)), ctx, [])
                | Inr (paramsBySource, filesystemSources) \<Rightarrow>
                    (case range_sources
                            (removeFilesystems_source ops removeFilesystemParamsByTag filesystemSources)
                            (range_order seed paramsBySource) no_locals of
                       Inl (out, tr) \<Rightarrow> (out, ctx, tr)
                     | Inr acc \<Rightarrow> removeFilesystems_publish ctx acc))))"

subsection \<open>detachFilesystems\<close>

fun detachFilesystems_errs ::
  "(MachineStorageId \<times> detachFilesystemOp) list \<Rightarrow> FilesystemAttachmentParams list
   \<Rightarrow> error option list \<Rightarrow> MachineStorageId locals \<Rightarrow> MachineStorageId locals option" where
  "detachFilesystems_errs ops ps [] acc = Some acc"
| "detachFilesystems_errs ops [] (e # errs) acc = None"
| "detachFilesystems_errs ops (p # ps) (Some err # errs) acc =
     detachFilesystems_errs ops ps errs
       (acc\<lparr>reschedule := reschedule acc @ [OpDetach (map_of ops (machineStorageId p))],
            statuses := statuses acc @
              [\<lparr>es_Tag = FilesystemTag_String (ap_Filesystem p),
                es_Status = Status_String status_Detaching,
                es_Info = error_Error err\<rparr>]\<rparr>)"
| "detachFilesystems_errs ops (p # ps) (None # errs) acc =
     detachFilesystems_errs ops ps errs
       (acc\<lparr>statuses := statuses acc @
              [\<lparr>es_Tag = FilesystemTag_String (ap_Filesystem p),
                es_Status = Status_String status_Detached,
                es_Info = []\<rparr>],
            collected := collected acc @ [machineStorageId p]\<rparr>)"

text \<open>
  Lines 312 to 352: the body of the per-source loop. The lookup of the source reports
  whether the name is a key of the map (\<^verbatim>\<open>ok\<close>); a miss in a CAAS model skips the batch.
\<close>

definition detachFilesystems_source ::
  "context \<Rightarrow> (MachineStorageId \<times> detachFilesystemOp) list \<Rightarrow> (string \<rightharpoonup> FilesystemSource option)
   \<Rightarrow> string \<Rightarrow> FilesystemAttachmentParams list \<Rightarrow> MachineStorageId locals
   \<Rightarrow> MachineStorageId loop_result" where
  "detachFilesystems_source ctx ops filesystemSources sourceName filesystemAttachmentParams acc =
     (case filesystemSources sourceName of
        None \<Rightarrow>
          if IsCAASModel ctx then Inr (acc\<lparr>trace := trace acc @ [Logged_Criticalf]\<rparr>)
          else Inl (Panic, trace acc)
      | Some None \<Rightarrow> Inl (Panic, trace acc)
      | Some (Some src) \<Rightarrow>
          (let acc1 = acc\<lparr>trace := trace acc @
                 [Provider_DetachFilesystems sourceName filesystemAttachmentParams]\<rparr>
           in
           case DetachFilesystems src filesystemAttachmentParams of
             Inl err \<Rightarrow>
               Inl (Return (Some (Annotated
                      (''detaching filesystems from source '' @ fmt_q sourceName) err)),
                    trace acc1)
           | Inr errs \<Rightarrow>
               (case detachFilesystems_errs ops filesystemAttachmentParams errs acc1 of
                  None \<Rightarrow> Inl (Panic, trace acc1)
                | Some acc2 \<Rightarrow> Inr acc2)))"

text \<open>Lines 353 to 361: the flush, the removal from controller state and from the cache.\<close>

definition detachFilesystems_publish ::
  "context \<Rightarrow> MachineStorageId locals \<Rightarrow> outcome \<times> context \<times> event list" where
  "detachFilesystems_publish ctx acc =
     (let tr = flush acc @ [Called_removeAttachments (collected acc)] in
      case removeAttachments ctx (collected acc) of
        Some err \<Rightarrow> (Return (Some (Annotated ''removing attachments from state'' err)), ctx, tr)
      | None \<Rightarrow>
          (Return None,
           ctx\<lparr>filesystemAttachments :=
                 foldl (\<lambda>m id. m(id := None)) (filesystemAttachments ctx) (collected acc)\<rparr>,
           tr))"

definition detachFilesystems ::
  "nat list \<Rightarrow> context \<Rightarrow> (MachineStorageId \<times> detachFilesystemOp) list \<Rightarrow> outcome \<times> context \<times> event list" where
  "detachFilesystems seed ctx ops =
     (let filesystemAttachmentParams = map (\<lambda>(id, op). df_args op) ops in
      case filesystemAttachmentParamsBySource (StorageDir ctx) filesystemAttachmentParams
             (filesystems ctx) (managedFilesystemSource ctx) (Registry ctx) of
        Inl err \<Rightarrow> (Return (Some (Traced err)), ctx, [])
      | Inr (paramsBySource, filesystemSources) \<Rightarrow>
          (case range_sources (detachFilesystems_source ctx ops filesystemSources)
                  (range_order seed paramsBySource) no_locals of
             Inl (out, tr) \<Rightarrow> (out, ctx, tr)
           | Inr acc \<Rightarrow> detachFilesystems_publish ctx acc))"

subsection \<open>Kinds of events, and the reading of a create result\<close>

text \<open>The two flush calls, and the bulk calls of a provider.\<close>

fun is_flush :: "event \<Rightarrow> bool" where
  "is_flush (Called_scheduleOperations rs) = True"
| "is_flush (Called_setStatus sts) = True"
| "is_flush e = False"

fun is_provider_call :: "event \<Rightarrow> bool" where
  "is_provider_call (Provider_CreateFilesystems n ps) = True"
| "is_provider_call (Provider_AttachFilesystems n ps) = True"
| "is_provider_call (Provider_DetachFilesystems n ps) = True"
| "is_provider_call (Provider_DestroyFilesystems n ids) = True"
| "is_provider_call (Provider_ReleaseFilesystems n ids) = True"
| "is_provider_call e = False"

text \<open>
  The status of an entity after its create result, in the words of the specification:
  a successful result gives \<^verbatim>\<open>attaching\<close>, a per-entity error gives \<^verbatim>\<open>pending\<close> with the
  error's message as detail.
\<close>

definition spec_create_status :: "FilesystemParams \<Rightarrow> CreateFilesystemsResult \<Rightarrow> EntityStatusArgs" where
  "spec_create_status p r = 
     (case cr_Error r of
        None \<Rightarrow> \<lparr>es_Tag = FilesystemTag_String (fp_Tag p), es_Status = ''attaching'', es_Info = []\<rparr>
      | Some err \<Rightarrow> \<lparr>es_Tag = FilesystemTag_String (fp_Tag p), es_Status = ''pending'',
                      es_Info = error_Error err\<rparr>)"

text \<open>
  The status of an entity whose parameters the source rejected, in the words of the
  specification: \<^verbatim>\<open>error\<close>, with the validation error's message; and these records for
  the rejected parameters of a batch, in the order of the batch.
\<close>

definition spec_validation_status :: "FilesystemParams \<Rightarrow> error \<Rightarrow> EntityStatusArgs" where
  "spec_validation_status p err =
     \<lparr>es_Tag = FilesystemTag_String (fp_Tag p), es_Status = ''error'', es_Info = error_Error err\<rparr>"

definition rejected_statuses :: "FilesystemSource \<Rightarrow> FilesystemParams list \<Rightarrow> EntityStatusArgs list" where
  "rejected_statuses src ps =
     concat (map (\<lambda>p. case ValidateFilesystemParams src p of
                          None \<Rightarrow> []
                        | Some err \<Rightarrow> [spec_validation_status p err]) ps)"

subsection \<open>Example inputs\<close>

text \<open>
  A provider source that rejects parameters of size zero, fails to create a filesystem
  larger than 100, and fails to attach or detach a read-only attachment; a registry
  that knows two dynamic providers and one non-dynamic one; a cache of two filesystems
  without a backing volume.
\<close>

definition ex_source :: "string \<Rightarrow> FilesystemSource" where
  "ex_source label =
     \<lparr>ValidateFilesystemParams = (\<lambda>p. if fp_Size p = 0 then Some (New (label @ '': zero size'')) else None),
      CreateFilesystems = (\<lambda>ps. Inr (map (\<lambda>p.
          if 100 < fp_Size p then \<lparr>cr_Filesystem = None, cr_Error = Some (New ''too large'')\<rparr>
          else \<lparr>cr_Filesystem = Some \<lparr>fs_Tag = fp_Tag p, fs_Volume = fp_Volume p,
                                       fs_FilesystemId = label @ ''-'' @ FilesystemTag_Id (fp_Tag p),
                                       fs_Size = fp_Size p\<rparr>,
                cr_Error = None\<rparr>) ps)),
      AttachFilesystems = (\<lambda>ps. Inr (map (\<lambda>p.
          if ap_ReadOnly p then \<lparr>ar_FilesystemAttachment = None, ar_Error = Some (New ''read-only'')\<rparr>
          else \<lparr>ar_FilesystemAttachment = Some \<lparr>fa_Filesystem = ap_Filesystem p, fa_Machine = ap_Machine p,
                                                 fa_Path = ap_Path p, fa_ReadOnly = False\<rparr>,
                ar_Error = None\<rparr>) ps)),
      DetachFilesystems = (\<lambda>ps. Inr (map (\<lambda>p. if ap_ReadOnly p then Some (New ''busy'') else None) ps)),
      DestroyFilesystems = (\<lambda>ids. Inr (map (\<lambda>i. if i = [] then Some (New ''no id'') else None) ids)),
      ReleaseFilesystems = (\<lambda>ids. Inr (map (\<lambda>i. if i = [] then Some (New ''no id'') else None) ids))\<rparr>"

definition ex_registry :: "string \<Rightarrow> error + FilesystemSource" where
  "ex_registry providerType =
     (if providerType = ''loop'' then Inr (ex_source ''loop'')
      else if providerType = ''tmpfs'' then Inr (ex_source ''tmpfs'')
      else if providerType = ''static'' then Inl (Traced errNonDynamic)
      else Inl (New ''unknown provider''))"

definition ex_fp :: "string \<Rightarrow> string \<Rightarrow> nat \<Rightarrow> FilesystemParams" where
  "ex_fp i provider sz =
     \<lparr>fp_Tag = FilesystemTag i, fp_Volume = VolumeTag [], fp_Size = sz, fp_Provider = provider\<rparr>"

definition ex_ap :: "string \<Rightarrow> string \<Rightarrow> string \<Rightarrow> bool \<Rightarrow> FilesystemAttachmentParams" where
  "ex_ap i provider path ro =
     \<lparr>ap_Provider = provider, ap_Machine = MachineTag ''0'', ap_ReadOnly = ro,
      ap_Filesystem = FilesystemTag i, ap_FilesystemId = ''id-'' @ i, ap_Path = path\<rparr>"

definition ex_cache :: "FilesystemTag \<rightharpoonup> Filesystem" where
  "ex_cache =
     [FilesystemTag ''0'' \<mapsto> \<lparr>fs_Tag = FilesystemTag ''0'', fs_Volume = VolumeTag [],
                                fs_FilesystemId = ''id-0'', fs_Size = 10\<rparr>,
      FilesystemTag ''2'' \<mapsto> \<lparr>fs_Tag = FilesystemTag ''2'', fs_Volume = VolumeTag [],
                                fs_FilesystemId = ''id-2'', fs_Size = 10\<rparr>]"

definition ex_ctx :: "context" where
  "ex_ctx =
     \<lparr>StorageDir = ''/storage'',
      Registry = ex_registry,
      SetFilesystemInfo = (\<lambda>fs. Inr (map (\<lambda>f. if pf_Size f = 13 then Some (New ''rejected'') else None) fs)),
      SetFilesystemAttachmentInfo =
        (\<lambda>as. Inr (map (\<lambda>a. if pa_MountPoint a = ''/bad'' then Some (New ''rejected'') else None) as)),
      RemoveFilesystemParams_api =
        (\<lambda>tags. Inr (map (\<lambda>t. \<lparr>rp_Provider = ''loop'',
                                  rp_FilesystemId = ''id-'' @ FilesystemTag_Id t,
                                  rp_Destroy = (t = FilesystemTag ''0'')\<rparr>) tags)),
      Remove_api = (\<lambda>tags. None),
      RemoveAttachments_api = (\<lambda>ids. None),
      managedFilesystemSource = ex_source ''managed'',
      filesystems = ex_cache,
      filesystemAttachments = Map.empty,
      IsCAASModel = False\<rparr>"

definition ex_create_op :: "string \<Rightarrow> string \<Rightarrow> nat \<Rightarrow> FilesystemTag \<times> createFilesystemOp" where
  "ex_create_op i provider sz =
     (FilesystemTag i, \<lparr>cf_backoff = exponentialBackoff 0, cf_args = ex_fp i provider sz\<rparr>)"

definition ex_attach_op :: "string \<Rightarrow> string \<Rightarrow> string \<Rightarrow> bool \<Rightarrow> MachineStorageId \<times> attachFilesystemOp" where
  "ex_attach_op i provider path ro =
     (machineStorageId (ex_ap i provider path ro),
      \<lparr>af_backoff = exponentialBackoff 0, af_args = ex_ap i provider path ro\<rparr>)"

definition ex_detach_op :: "string \<Rightarrow> string \<Rightarrow> string \<Rightarrow> bool \<Rightarrow> MachineStorageId \<times> detachFilesystemOp" where
  "ex_detach_op i provider path ro =
     (machineStorageId (ex_ap i provider path ro),
      \<lparr>df_backoff = exponentialBackoff 0, df_args = ex_ap i provider path ro\<rparr>)"

definition ex_remove_op :: "string \<Rightarrow> FilesystemTag \<times> removeFilesystemOp" where
  "ex_remove_op i = (FilesystemTag i, \<lparr>rf_backoff = exponentialBackoff 0, rf_tag = FilesystemTag i\<rparr>)"

definition ex_create_run :: "outcome \<times> context \<times> event list" where
  "ex_create_run = createFilesystems [1] ex_ctx
     [ex_create_op ''5'' ''loop'' 10, ex_create_op ''6'' ''tmpfs'' 0, ex_create_op ''7'' ''loop'' 200,
      ex_create_op ''8'' ''static'' 5, ex_create_op ''9'' ''tmpfs'' 13]"

definition ex_attach_run :: "outcome \<times> context \<times> event list" where
  "ex_attach_run = attachFilesystems [1] ex_ctx
     [ex_attach_op ''0'' ''loop'' [] False, ex_attach_op ''1'' ''tmpfs'' ''/mnt/x'' False,
      ex_attach_op ''2'' ''loop'' [] True]"

definition ex_remove_run :: "outcome \<times> context \<times> event list" where
  "ex_remove_run = removeFilesystems [] ex_ctx [ex_remove_op ''0'', ex_remove_op ''1'', ex_remove_op ''2'']"

definition ex_detach_run :: "outcome \<times> context \<times> event list" where
  "ex_detach_run = detachFilesystems [1] ex_ctx
     [ex_detach_op ''0'' ''loop'' [] False, ex_detach_op ''1'' ''tmpfs'' ''/mnt/x'' False,
      ex_detach_op ''2'' ''loop'' [] True]"

definition ex_fs :: "string \<Rightarrow> string \<Rightarrow> nat \<Rightarrow> Filesystem" where
  "ex_fs label i sz =
     \<lparr>fs_Tag = FilesystemTag i, fs_Volume = VolumeTag [], fs_FilesystemId = label @ ''-'' @ i,
      fs_Size = sz\<rparr>"

definition ex_status :: "string \<Rightarrow> string \<Rightarrow> string \<Rightarrow> EntityStatusArgs" where
  "ex_status tag st info = \<lparr>es_Tag = tag, es_Status = st, es_Info = info\<rparr>"



definition ex_tmpfs_results :: "CreateFilesystemsResult list" where
  "ex_tmpfs_results =
     [\<lparr>cr_Filesystem = Some (ex_fs ''tmpfs'' ''9'' 13), cr_Error = None\<rparr>,
      \<lparr>cr_Filesystem = None, cr_Error = Some (New ''too large'')\<rparr>]"

definition ex_tmpfs_locals :: "Filesystem locals" where
  "ex_tmpfs_locals =
     \<lparr>reschedule = [OpCreate (Some (snd (ex_create_op ''10'' ''tmpfs'' 500)))],
      statuses = [ex_status ''filesystem-6'' ''error'' ''tmpfs: zero size'',
                  ex_status ''filesystem-9'' ''attaching'' [],
                  ex_status ''filesystem-10'' ''pending'' ''too large''],
      collected = [ex_fs ''tmpfs'' ''9'' 13],
      trace = [Provider_CreateFilesystems ''tmpfs'' [ex_fp ''9'' ''tmpfs'' 13, ex_fp ''10'' ''tmpfs'' 500]]\<rparr>"

definition ex_fa :: "string \<Rightarrow> string \<Rightarrow> FilesystemAttachment" where
  "ex_fa i path =
     \<lparr>fa_Filesystem = FilesystemTag i, fa_Machine = MachineTag ''0'', fa_Path = path, fa_ReadOnly = False\<rparr>"

definition ex_publish_locals :: "Filesystem locals" where
  "ex_publish_locals =
     \<lparr>reschedule = [], statuses = [],
      collected = [ex_fs ''tmpfs'' ''9'' 13, ex_fs ''loop'' ''5'' 10], trace = []\<rparr>"

definition ex_attach_locals :: "FilesystemAttachment locals" where
  "ex_attach_locals =
     \<lparr>reschedule = [], statuses = [],
      collected = [ex_fa ''0'' ''/storage/0'', ex_fa ''1'' ''/bad'', ex_fa ''2'' ''/storage/2''], trace = []\<rparr>"

definition ex_ctx_down :: "context" where
  "ex_ctx_down = ex_ctx\<lparr>SetFilesystemInfo := (\<lambda>fs. Inl (New ''connection is shut down''))\<rparr>"

definition ex_attach_rejected_run :: "outcome \<times> context \<times> event list" where
  "ex_attach_rejected_run = attachFilesystems [1] ex_ctx
     [ex_attach_op ''0'' ''loop'' [] False, ex_attach_op ''1'' ''tmpfs'' ''/bad'' False,
      ex_attach_op ''2'' ''loop'' [] False]"








section \<open>Properties\<close>

subsection \<open>Maps of slices and the order of iteration\<close>

lemma mset_range_order: "mset (range_order cs xs) = mset xs"
proof (induction cs xs rule: range_order.induct)
  case (3 c cs x xs)
  let ?ys = "x # xs"
  let ?i = "c mod length ?ys"
  have i: "?i < length ?ys" by simp
  have "mset ?ys = mset (take ?i ?ys @ ?ys ! ?i # drop (Suc ?i) ?ys)"
    using id_take_nth_drop[OF i] by metis
  then show ?case using 3 by (simp add: Let_def)
qed simp_all

lemma set_range_order: "set (range_order cs xs) = set xs"
  using mset_range_order by (metis set_mset_mset)

lemma map_of_append_at:
  "map_of (append_at m k v) = (map_of m)(k \<mapsto> (case map_of m k of None \<Rightarrow> [] | Some vs \<Rightarrow> vs) @ [v])"
  by (induction m k v rule: append_at.induct) (auto simp: fun_eq_iff)

lemma keys_append_at:
  "map fst (append_at m k v) = (if k \<in> fst ` set m then map fst m else map fst m @ [k])"
  by (induction m k v rule: append_at.induct) (auto)

lemma distinct_append_at: "distinct (map fst m) \<Longrightarrow> distinct (map fst (append_at m k v))"
  by (simp add: keys_append_at)

lemma mset_concat_append_at:
  "mset (concat (map snd (append_at m k v))) = mset (concat (map snd m)) + {#v#}"
  by (induction m k v rule: append_at.induct) auto

subsection \<open>The partition by source\<close>

lemma sources_char:
  "filesystemParamsBySource_sources dir ps managed registry srcs = Inr srcs' \<Longrightarrow>
   srcs' n =
     (case srcs n of
        Some x \<Rightarrow> Some x
      | None \<Rightarrow>
          (case find (\<lambda>q. fp_Provider q = n) ps of
             None \<Rightarrow> None
           | Some q \<Rightarrow>
               if fp_Volume q \<noteq> VolumeTag [] then Some (Some managed)
               else (case registry n of Inl e \<Rightarrow> Some None | Inr s \<Rightarrow> Some (Some s))))"
proof (induction ps arbitrary: srcs)
  case Nil
  then show ?case by (auto split: option.splits)
next
  case (Cons p ps)
  show ?case
  proof (cases "srcs (fp_Provider p)")
    case (Some x)
    with Cons.prems have "filesystemParamsBySource_sources dir ps managed registry srcs = Inr srcs'"
      by simp
    from Cons.IH[OF this] Some show ?thesis by (auto split: option.splits)
  next
    case None
    show ?thesis
    proof (cases "fp_Volume p \<noteq> VolumeTag []")
      case True
      with None Cons.prems have
        "filesystemParamsBySource_sources dir ps managed registry (srcs(fp_Provider p \<mapsto> Some managed)) = Inr srcs'"
        by simp
      from Cons.IH[OF this] None True show ?thesis by (auto split: option.splits)
    next
      case False
      show ?thesis
      proof (cases "registry (fp_Provider p)")
        case (Inl e)
        with None False Cons.prems have
          "filesystemParamsBySource_sources dir ps managed registry (srcs(fp_Provider p \<mapsto> None)) = Inr srcs'"
          by (simp add: filesystemSource_def split: if_splits)
        from Cons.IH[OF this] None False Inl show ?thesis by (auto split: option.splits)
      next
        case (Inr s)
        with None False Cons.prems have
          "filesystemParamsBySource_sources dir ps managed registry (srcs(fp_Provider p \<mapsto> Some s)) = Inr srcs'"
          by (simp add: filesystemSource_def)
        from Cons.IH[OF this] None False Inr show ?thesis by (auto split: option.splits)
      qed
    qed
  qed
qed

lemma sources_nonDynamic:
  "filesystemParamsBySource_sources dir ps managed registry srcs = Inr srcs' \<Longrightarrow>
   srcs' n = Some None \<Longrightarrow> srcs n \<noteq> Some None \<Longrightarrow>
   \<exists>e. registry n = Inl e \<and> Cause e = errNonDynamic"
proof (induction ps arbitrary: srcs)
  case Nil
  then show ?case by simp
next
  case (Cons p ps)
  show ?case
  proof (cases "srcs (fp_Provider p)")
    case (Some x)
    with Cons.prems have "filesystemParamsBySource_sources dir ps managed registry srcs = Inr srcs'"
      by simp
    from Cons.IH[OF this] Cons.prems show ?thesis by simp
  next
    case None
    show ?thesis
    proof (cases "fp_Volume p \<noteq> VolumeTag []")
      case True
      with None Cons.prems have
        "filesystemParamsBySource_sources dir ps managed registry (srcs(fp_Provider p \<mapsto> Some managed)) = Inr srcs'"
        by simp
      from Cons.IH[OF this, of ] Cons.prems(2,3) show ?thesis by (simp split: if_splits)
    next
      case False
      show ?thesis
      proof (cases "registry (fp_Provider p)")
        case (Inl e)
        with None False Cons.prems have *:
          "filesystemParamsBySource_sources dir ps managed registry (srcs(fp_Provider p \<mapsto> None)) = Inr srcs'"
          and c: "Cause e = errNonDynamic"
          by (simp_all add: filesystemSource_def split: if_splits)
        show ?thesis
        proof (cases "n = fp_Provider p")
          case True
          with Inl c show ?thesis by simp
        next
          case False
          with Cons.IH[OF *] Cons.prems(2,3) show ?thesis by simp
        qed
      next
        case (Inr s)
        with None False Cons.prems have
          "filesystemParamsBySource_sources dir ps managed registry (srcs(fp_Provider p \<mapsto> Some s)) = Inr srcs'"
          by (simp add: filesystemSource_def)
        from Cons.IH[OF this] Cons.prems(2,3) show ?thesis by (simp split: if_splits)
      qed
    qed
  qed
qed

lemma partition_map_of:
  "map_of (filesystemParamsBySource_partition ps srcs pbs) n =
     (let new = filter (\<lambda>q. fp_Provider q = n \<and> lookup_source srcs n \<noteq> None) ps in
      if new = [] then map_of pbs n
      else Some ((case map_of pbs n of None \<Rightarrow> [] | Some old \<Rightarrow> old) @ new))"
proof (induction ps arbitrary: pbs)
  case Nil
  then show ?case by simp
next
  case (Cons p ps)
  show ?case
    by (cases "lookup_source srcs (fp_Provider p)")
       (auto simp: Cons.IH map_of_append_at Let_def split: option.splits)
qed

lemma partition_distinct:
  "distinct (map fst pbs) \<Longrightarrow> distinct (map fst (filesystemParamsBySource_partition ps srcs pbs))"
  by (induction ps arbitrary: pbs) (auto simp: distinct_append_at Let_def split: option.splits)

lemma partition_mset:
  "mset (concat (map snd (filesystemParamsBySource_partition ps srcs pbs))) =
   mset (concat (map snd pbs)) + mset (filter (\<lambda>q. lookup_source srcs (fp_Provider q) \<noteq> None) ps)"
  by (induction ps arbitrary: pbs) (auto simp: mset_concat_append_at Let_def split: option.splits)

lemma sources_dom:
  assumes "filesystemParamsBySource_sources dir ps managed registry Map.empty = Inr srcs"
    and "p \<in> set ps"
  shows "srcs (fp_Provider p) \<noteq> None"
proof -
  from assms(2) have "find (\<lambda>q. fp_Provider q = fp_Provider p) ps \<noteq> None"
    by (auto simp: find_None_iff)
  then show ?thesis
    unfolding sources_char[OF assms(1), of "fp_Provider p"]
    by (auto split: option.splits sum.splits)
qed

lemma attach_loop_mset:
  "filesystemAttachmentParamsBySource_loop dir ps fss managed registry pbs srcs = Inr (pbs', srcs') \<Longrightarrow>
   mset (concat (map snd pbs')) = mset (concat (map snd pbs)) + mset ps"
  by (induction ps arbitrary: pbs srcs)
     (auto simp: mset_concat_append_at Let_def split: option.splits if_splits sum.splits)

lemma attach_loop_map_of:
  "filesystemAttachmentParamsBySource_loop dir ps fss managed registry pbs srcs = Inr (pbs', srcs') \<Longrightarrow>
   map_of pbs' n =
     (let new = filter (\<lambda>q. ap_Provider q = n) ps in
      if new = [] then map_of pbs n
      else Some ((case map_of pbs n of None \<Rightarrow> [] | Some old \<Rightarrow> old) @ new))"
proof (induction ps arbitrary: pbs srcs)
  case Nil
  then show ?case by simp
next
  case (Cons p ps)
  from Cons.prems obtain srcs1 where
    *: "filesystemAttachmentParamsBySource_loop dir ps fss managed registry
          (append_at pbs (ap_Provider p) p) srcs1 = Inr (pbs', srcs')"
    by (auto simp: Let_def split: option.splits if_splits sum.splits)
  show ?case
    unfolding Cons.IH[OF *] by (auto simp: map_of_append_at Let_def split: option.splits)
qed

lemma attach_loop_distinct:
  "filesystemAttachmentParamsBySource_loop dir ps fss managed registry pbs srcs = Inr (pbs', srcs') \<Longrightarrow>
   distinct (map fst pbs) \<Longrightarrow> distinct (map fst pbs')"
proof (induction ps arbitrary: pbs srcs)
  case Nil
  then show ?case by simp
next
  case (Cons p ps)
  from Cons.prems obtain srcs1 where
    *: "filesystemAttachmentParamsBySource_loop dir ps fss managed registry
          (append_at pbs (ap_Provider p) p) srcs1 = Inr (pbs', srcs')"
    by (auto simp: Let_def split: option.splits if_splits sum.splits)
  show ?case
    using Cons.IH[OF *] Cons.prems(2) by (simp add: distinct_append_at)
qed

lemma attach_loop_Cons:
  "filesystemAttachmentParamsBySource_loop dir (p # ps) fss managed registry pbs srcs = Inr r \<Longrightarrow>
   \<exists>srcs1. filesystemAttachmentParamsBySource_loop dir ps fss managed registry
              (append_at pbs (ap_Provider p) p) srcs1 = Inr r \<and>
           (srcs1 = srcs \<and> srcs (ap_Provider p) \<noteq> None \<or>
            srcs (ap_Provider p) = None \<and> (\<exists>s. srcs1 = srcs(ap_Provider p \<mapsto> Some s)))"
  by (auto simp: Let_def split: option.splits if_splits sum.splits)

lemma attach_loop_keep:
  "filesystemAttachmentParamsBySource_loop dir ps fss managed registry pbs srcs = Inr (pbs', srcs') \<Longrightarrow>
   srcs n = Some x \<Longrightarrow> srcs' n = Some x"
proof (induction ps arbitrary: pbs srcs)
  case Nil
  then show ?case by simp
next
  case (Cons p ps)
  from attach_loop_Cons[OF Cons.prems(1)] obtain srcs1 where
    *: "filesystemAttachmentParamsBySource_loop dir ps fss managed registry
          (append_at pbs (ap_Provider p) p) srcs1 = Inr (pbs', srcs')"
    and s1: "srcs1 = srcs \<or> srcs (ap_Provider p) = None \<and> (\<exists>s. srcs1 = srcs(ap_Provider p \<mapsto> Some s))"
    by blast
  from s1 Cons.prems(2) have "srcs1 n = Some x" by auto
  with Cons.IH[OF *] show ?case by simp
qed

lemma attach_loop_no_nil:
  "filesystemAttachmentParamsBySource_loop dir ps fss managed registry pbs srcs = Inr (pbs', srcs') \<Longrightarrow>
   srcs n \<noteq> Some None \<Longrightarrow> srcs' n \<noteq> Some None"
proof (induction ps arbitrary: pbs srcs)
  case Nil
  then show ?case by simp
next
  case (Cons p ps)
  from attach_loop_Cons[OF Cons.prems(1)] obtain srcs1 where
    *: "filesystemAttachmentParamsBySource_loop dir ps fss managed registry
          (append_at pbs (ap_Provider p) p) srcs1 = Inr (pbs', srcs')"
    and s1: "srcs1 = srcs \<or> srcs (ap_Provider p) = None \<and> (\<exists>s. srcs1 = srcs(ap_Provider p \<mapsto> Some s))"
    by blast
  from s1 Cons.prems(2) have "srcs1 n \<noteq> Some None" by (auto split: if_splits)
  with Cons.IH[OF *] show ?case by simp
qed

lemma attach_loop_dom:
  "filesystemAttachmentParamsBySource_loop dir ps fss managed registry pbs srcs = Inr (pbs', srcs') \<Longrightarrow>
   dom srcs' = dom srcs \<union> ap_Provider ` set ps"
proof (induction ps arbitrary: pbs srcs)
  case Nil
  then show ?case by simp
next
  case (Cons p ps)
  from attach_loop_Cons[OF Cons.prems(1)] obtain srcs1 where
    *: "filesystemAttachmentParamsBySource_loop dir ps fss managed registry
          (append_at pbs (ap_Provider p) p) srcs1 = Inr (pbs', srcs')"
    and s1: "srcs1 = srcs \<and> srcs (ap_Provider p) \<noteq> None \<or>
             srcs (ap_Provider p) = None \<and> (\<exists>s. srcs1 = srcs(ap_Provider p \<mapsto> Some s))"
    by blast
  from s1 have "dom srcs1 = insert (ap_Provider p) (dom srcs)" by auto
  with Cons.IH[OF *] show ?case by simp
qed

lemma attach_loop_first:
  "filesystemAttachmentParamsBySource_loop dir ps fss managed registry pbs srcs = Inr (pbs', srcs') \<Longrightarrow>
   srcs n = None \<Longrightarrow> find (\<lambda>q. ap_Provider q = n) ps = Some q \<Longrightarrow>
   (case fss (ap_Filesystem q) of None \<Rightarrow> True | Some f \<Rightarrow> fs_Volume f \<noteq> VolumeTag []) \<Longrightarrow>
   srcs' n = Some (Some managed)"
proof (induction ps arbitrary: pbs srcs)
  case Nil
  then show ?case by simp
next
  case (Cons p ps)
  show ?case
  proof (cases "ap_Provider p = n")
    case True
    with Cons.prems(3) have q: "q = p" by simp
    from Cons.prems(1,2,4) True q have
      "filesystemAttachmentParamsBySource_loop dir ps fss managed registry
         (append_at pbs n p) (srcs(n \<mapsto> Some managed)) = Inr (pbs', srcs')"
      by (auto simp: Let_def split: option.splits if_splits)
    from attach_loop_keep[OF this, of n] show ?thesis by simp
  next
    case False
    from Cons.prems(1) obtain srcs1 where
      *: "filesystemAttachmentParamsBySource_loop dir ps fss managed registry
           (append_at pbs (ap_Provider p) p) srcs1 = Inr (pbs', srcs')"
      and s1: "srcs1 = srcs \<or> (\<exists>v. srcs1 = srcs(ap_Provider p \<mapsto> v))"
      by (auto simp: Let_def split: option.splits if_splits sum.splits)
    from s1 False Cons.prems(2) have "srcs1 n = None" by auto
    from Cons.IH[OF * this] Cons.prems(3,4) False show ?thesis by simp
  qed
qed

lemma attach_loop_registry:
  assumes agree: "\<And>m. m \<noteq> n \<Longrightarrow> registry' m = registry m"
  shows "srcs n \<noteq> None \<or>
      (case find (\<lambda>q. ap_Provider q = n) ps of
         None \<Rightarrow> True
       | Some q \<Rightarrow> (case fss (ap_Filesystem q) of None \<Rightarrow> True | Some f \<Rightarrow> fs_Volume f \<noteq> VolumeTag [])) \<Longrightarrow>
    filesystemAttachmentParamsBySource_loop dir ps fss managed registry' pbs srcs =
    filesystemAttachmentParamsBySource_loop dir ps fss managed registry pbs srcs"
proof (induction ps arbitrary: pbs srcs)
  case Nil
  then show ?case by simp
next
  case (Cons p ps)
  show ?case
  proof (cases "ap_Provider p = n")
    case True
    show ?thesis
    proof (cases "srcs n")
      case None
      with Cons.prems True have
        m: "(case fss (ap_Filesystem p) of None \<Rightarrow> True | Some f \<Rightarrow> fs_Volume f \<noteq> VolumeTag [])"
        by simp
      have "\<And>pbs1. filesystemAttachmentParamsBySource_loop dir ps fss managed registry' pbs1 (srcs(n \<mapsto> Some managed)) =
            filesystemAttachmentParamsBySource_loop dir ps fss managed registry pbs1 (srcs(n \<mapsto> Some managed))"
        by (rule Cons.IH) simp
      with None True m show ?thesis
        by (auto simp: Let_def split: option.splits)
    next
      case (Some x)
      have "\<And>pbs1. filesystemAttachmentParamsBySource_loop dir ps fss managed registry' pbs1 srcs =
            filesystemAttachmentParamsBySource_loop dir ps fss managed registry pbs1 srcs"
        by (rule Cons.IH) (simp add: Some)
      with Some True show ?thesis by (simp add: Let_def)
    qed
  next
    case False
    have ih: "\<And>pbs1 v. filesystemAttachmentParamsBySource_loop dir ps fss managed registry' pbs1 (srcs(ap_Provider p \<mapsto> v)) =
            filesystemAttachmentParamsBySource_loop dir ps fss managed registry pbs1 (srcs(ap_Provider p \<mapsto> v))"
      using Cons.prems False by (intro Cons.IH) auto
    have ih0: "\<And>pbs1. filesystemAttachmentParamsBySource_loop dir ps fss managed registry' pbs1 srcs =
            filesystemAttachmentParamsBySource_loop dir ps fss managed registry pbs1 srcs"
      using Cons.prems False by (intro Cons.IH) auto
    from False have "registry' (ap_Provider p) = registry (ap_Provider p)" by (rule agree)
    with ih ih0 show ?thesis
      by (simp add: Let_def filesystemSource_def split: option.splits sum.splits)
  qed
qed

subsection \<open>The per-source loop\<close>

lemma range_sources_append:
  assumes "\<And>n ps a a'. (n, ps) \<in> set pbs \<Longrightarrow> body n ps a = Inr a' \<Longrightarrow>
             \<exists>d. f a' = f a @ d \<and> (\<forall>x\<in>set d. P x)"
    and "range_sources body pbs acc = Inr acc'"
  shows "\<exists>d. f acc' = f acc @ d \<and> (\<forall>x\<in>set d. P x)"
  using assms
proof (induction pbs arbitrary: acc)
  case Nil
  then show ?case by simp
next
  case (Cons np pbs)
  obtain n ps where np: "np = (n, ps)" by (cases np)
  from Cons.prems(2) np obtain a1 where
    b: "body n ps acc = Inr a1" and r: "range_sources body pbs a1 = Inr acc'"
    by (auto split: sum.splits)
  from Cons.prems(1)[OF _ b] np obtain d1 where d1: "f a1 = f acc @ d1" "\<forall>x\<in>set d1. P x"
    by auto
  have step: "\<And>n ps a a'. (n, ps) \<in> set pbs \<Longrightarrow> body n ps a = Inr a' \<Longrightarrow>
             \<exists>d. f a' = f a @ d \<and> (\<forall>x\<in>set d. P x)"
    using Cons.prems(1) by (meson list.set_intros(2))
  have "\<exists>d. f acc' = f a1 @ d \<and> (\<forall>x\<in>set d. P x)"
    by (rule Cons.IH[OF step r])
  then obtain d2 where "f acc' = f a1 @ d2" "\<forall>x\<in>set d2. P x" by auto
  with d1 have "f acc' = f acc @ (d1 @ d2) \<and> (\<forall>x\<in>set (d1 @ d2). P x)" by auto
  then show ?case by blast
qed

lemma range_sources_stop:
  assumes "\<And>n ps a a'. (n, ps) \<in> set pbs \<Longrightarrow> body n ps a = Inr a' \<Longrightarrow>
             \<exists>d. trace a' = trace a @ d \<and> (\<forall>x\<in>set d. P x)"
    and "\<And>n ps a out tr. (n, ps) \<in> set pbs \<Longrightarrow> body n ps a = Inl (out, tr) \<Longrightarrow>
             \<exists>d. tr = trace a @ d \<and> (\<forall>x\<in>set d. P x)"
    and "range_sources body pbs acc = Inl (out, tr)"
  shows "\<exists>d. tr = trace acc @ d \<and> (\<forall>x\<in>set d. P x)"
  using assms
proof (induction pbs arbitrary: acc)
  case Nil
  then show ?case by simp
next
  case (Cons np pbs)
  obtain n ps where np: "np = (n, ps)" by (cases np)
  show ?case
  proof (cases "body n ps acc")
    case (Inl stop)
    with Cons.prems(3) np have "body n ps acc = Inl (out, tr)" by simp
    from Cons.prems(2)[OF _ this] np show ?thesis by auto
  next
    case (Inr a1)
    with Cons.prems(3) np have r: "range_sources body pbs a1 = Inl (out, tr)" by simp
    from Cons.prems(1)[OF _ Inr] np obtain d1 where
      d1: "trace a1 = trace acc @ d1" "\<forall>x\<in>set d1. P x" by auto
    have step1: "\<And>n ps a a'. (n, ps) \<in> set pbs \<Longrightarrow> body n ps a = Inr a' \<Longrightarrow>
             \<exists>d. trace a' = trace a @ d \<and> (\<forall>x\<in>set d. P x)"
      using Cons.prems(1) by (meson list.set_intros(2))
    have step2: "\<And>n ps a out tr. (n, ps) \<in> set pbs \<Longrightarrow> body n ps a = Inl (out, tr) \<Longrightarrow>
             \<exists>d. tr = trace a @ d \<and> (\<forall>x\<in>set d. P x)"
      using Cons.prems(2) by (meson list.set_intros(2))
    have "\<exists>d. tr = trace a1 @ d \<and> (\<forall>x\<in>set d. P x)"
      by (rule Cons.IH[OF step1 step2 r])
    then obtain d2 where "tr = trace a1 @ d2" "\<forall>x\<in>set d2. P x" by auto
    with d1 have "tr = trace acc @ (d1 @ d2) \<and> (\<forall>x\<in>set (d1 @ d2). P x)" by auto
    then show ?thesis by blast
  qed
qed

lemma range_sources_member:
  assumes "\<And>n ps a a'. (n, ps) \<in> set pbs \<Longrightarrow> body n ps a = Inr a' \<Longrightarrow> \<exists>d. f a' = f a @ d"
    and "(n0, ps0) \<in> set pbs"
    and "\<And>a a'. body n0 ps0 a = Inr a' \<Longrightarrow> x \<in> set (f a')"
    and "range_sources body pbs acc = Inr acc'"
  shows "x \<in> set (f acc')"
  using assms
proof (induction pbs arbitrary: acc)
  case Nil
  then show ?case by simp
next
  case (Cons np pbs)
  obtain n ps where np: "np = (n, ps)" by (cases np)
  from Cons.prems(4) np obtain a1 where
    b: "body n ps acc = Inr a1" and r: "range_sources body pbs a1 = Inr acc'"
    by (auto split: sum.splits)
  have step: "\<And>n ps a a'. (n, ps) \<in> set pbs \<Longrightarrow> body n ps a = Inr a' \<Longrightarrow> \<exists>d. f a' = f a @ d"
    using Cons.prems(1) by (meson list.set_intros(2))
  show ?case
  proof (cases "(n0, ps0) = (n, ps)")
    case True
    with Cons.prems(3) b have x: "x \<in> set (f a1)" by auto
    have "\<exists>d. f acc' = f a1 @ d \<and> (\<forall>x\<in>set d. True)"
      by (rule range_sources_append[OF _ r]) (use step in auto)
    with x show ?thesis by auto
  next
    case False
    with Cons.prems(2) np have "(n0, ps0) \<in> set pbs" by auto
    from Cons.IH[OF step this Cons.prems(3) r] show ?thesis .
  qed
qed

subsection \<open>The loops over the results of a bulk call\<close>

lemma createFilesystems_results_char:
  "createFilesystems_results ops ps rs acc = Some acc' \<Longrightarrow>
   length rs \<le> length ps
   \<and> statuses acc' = statuses acc @ map (\<lambda>(p, r). spec_create_status p r) (zip ps rs)
   \<and> reschedule acc' = reschedule acc @
        map (\<lambda>(p, r). OpCreate (map_of ops (fp_Tag p))) (filter (\<lambda>(p, r). cr_Error r \<noteq> None) (zip ps rs))
   \<and> map Some (collected acc') = map Some (collected acc) @
        map cr_Filesystem (filter (\<lambda>r. cr_Error r = None) rs)
   \<and> trace acc' = trace acc"
proof (induction ops ps rs acc rule: createFilesystems_results.induct)
  case (1 ops ps acc)
  then show ?case by simp
next
  case (2 ops r rs acc)
  then show ?case by simp
next
  case (3 ops p ps r rs acc)
  show ?case
  proof (cases "cr_Error r")
    case None
    with "3.prems" obtain fs where fs: "cr_Filesystem r = Some fs" 
      and *: "createFilesystems_results ops ps rs
                 (acc\<lparr>statuses := statuses acc @
                        [\<lparr>es_Tag = FilesystemTag_String (fp_Tag p),
                          es_Status = Status_String status_Attaching,
                          es_Info = []\<rparr>],
                      collected := collected acc @ [fs]\<rparr>) = Some acc'"
      by (auto split: option.splits)
    from "3.IH"(1)[OF None fs *] None fs show ?thesis
      by (simp add: spec_create_status_def)
  next
    case (Some err)
    with "3.prems" have *: "createFilesystems_results ops ps rs
            (acc\<lparr>reschedule := reschedule acc @ [OpCreate (map_of ops (fp_Tag p))],
                 statuses := statuses acc @
                   [\<lparr>es_Tag = FilesystemTag_String (fp_Tag p),
                     es_Status = Status_String status_Pending,
                     es_Info = error_Error err\<rparr>]\<rparr>) = Some acc'"
      by simp
    from "3.IH"(2)[OF Some *] Some show ?thesis
      by (simp add: spec_create_status_def)
  qed
qed

lemma range_sources_stopped_at:
  "range_sources body pbs acc = Inl stop \<Longrightarrow> \<exists>n ps a. (n, ps) \<in> set pbs \<and> body n ps a = Inl stop"
proof (induction pbs arbitrary: acc)
  case Nil
  then show ?case by simp
next
  case (Cons np pbs)
  obtain n ps where np: "np = (n, ps)" by (cases np)
  show ?case
  proof (cases "body n ps acc")
    case (Inl s)
    with Cons.prems np have "body n ps acc = Inl stop" by simp
    with np show ?thesis by auto
  next
    case (Inr a1)
    with Cons.prems np have "range_sources body pbs a1 = Inl stop" by simp
    from Cons.IH[OF this] show ?thesis by auto
  qed
qed

lemma attachFilesystems_results_trace:
  "attachFilesystems_results ops ps rs acc = Some acc' \<Longrightarrow> trace acc' = trace acc"
  by (induction ops ps rs acc rule: attachFilesystems_results.induct)
     (auto split: option.splits)

lemma removeFilesystems_errs_trace:
  "removeFilesystems_errs ops tags errs acc = Some acc' \<Longrightarrow> trace acc' = trace acc"
  by (induction ops tags errs acc rule: removeFilesystems_errs.induct) auto

lemma detachFilesystems_errs_trace:
  "detachFilesystems_errs ops ps errs acc = Some acc' \<Longrightarrow> trace acc' = trace acc"
  by (induction ops ps errs acc rule: detachFilesystems_errs.induct) auto

lemma createFilesystems_source_trace:
  "createFilesystems_source ops srcs n ps a = Inr a' \<Longrightarrow>
     \<exists>d. trace a' = trace a @ d \<and> (\<forall>e\<in>set d. \<not> is_flush e)"
  "createFilesystems_source ops srcs n ps a = Inl (out, tr) \<Longrightarrow>
     out \<noteq> Return None \<and> (\<exists>d. tr = trace a @ d \<and> (\<forall>e\<in>set d. \<not> is_flush e))"
  by (auto simp: createFilesystems_source_def Let_def
           split: option.splits prod.splits if_splits sum.splits
           dest!: createFilesystems_results_char)

lemma attachFilesystems_source_trace:
  "attachFilesystems_source ops srcs n ps a = Inr a' \<Longrightarrow>
     \<exists>d. trace a' = trace a @ d \<and> (\<forall>e\<in>set d. \<not> is_flush e)"
  "attachFilesystems_source ops srcs n ps a = Inl (out, tr) \<Longrightarrow>
     out \<noteq> Return None \<and> (\<exists>d. tr = trace a @ d \<and> (\<forall>e\<in>set d. \<not> is_flush e))"
  by (auto simp: attachFilesystems_source_def Let_def
           split: option.splits prod.splits if_splits sum.splits
           dest!: attachFilesystems_results_trace)

lemma detachFilesystems_source_trace:
  "detachFilesystems_source ctx ops srcs n ps a = Inr a' \<Longrightarrow>
     \<exists>d. trace a' = trace a @ d \<and> (\<forall>e\<in>set d. \<not> is_flush e)"
  "detachFilesystems_source ctx ops srcs n ps a = Inl (out, tr) \<Longrightarrow>
     out \<noteq> Return None \<and> (\<exists>d. tr = trace a @ d \<and> (\<forall>e\<in>set d. \<not> is_flush e))"
  by (auto simp: detachFilesystems_source_def Let_def
           split: option.splits prod.splits if_splits sum.splits
           dest!: detachFilesystems_errs_trace)

lemma removeFilesystems_func_trace:
  assumes "\<And>ids. \<not> is_flush (called ids)"
  shows "removeFilesystems_func ops tags ids called f a = Inr a' \<Longrightarrow>
     \<exists>d. trace a' = trace a @ d \<and> (\<forall>e\<in>set d. \<not> is_flush e)"
  "removeFilesystems_func ops tags ids called f a = Inl (out, tr) \<Longrightarrow>
     out \<noteq> Return None \<and> (\<exists>d. tr = trace a @ d \<and> (\<forall>e\<in>set d. \<not> is_flush e))"
  using assms
  by (auto simp: removeFilesystems_func_def Let_def
           split: option.splits prod.splits if_splits sum.splits
           dest!: removeFilesystems_errs_trace)

lemma traced_Inr: "traced r = Inr a \<longleftrightarrow> r = Inr a"
  by (cases r rule: traced.cases) auto

lemma traced_Inl:
  "traced r = Inl (out, tr) \<Longrightarrow> \<exists>out'. r = Inl (out', tr) \<and> (out = Return None \<longrightarrow> out' = Return None)"
  by (cases r rule: traced.cases) auto

lemma removeFilesystems_source_trace:
  "removeFilesystems_source ops byTag srcs n ps a = Inr a' \<Longrightarrow>
     \<exists>d. trace a' = trace a @ d \<and> (\<forall>e\<in>set d. \<not> is_flush e)"
  "removeFilesystems_source ops byTag srcs n ps a = Inl (out, tr) \<Longrightarrow>
     out \<noteq> Return None \<and> (\<exists>d. tr = trace a @ d \<and> (\<forall>e\<in>set d. \<not> is_flush e))"
proof -
  assume r: "removeFilesystems_source ops byTag srcs n ps a = Inr a'"
  obtain part where p: "partitionRemoveFilesystemParams (map fp_Tag ps)
          (map (\<lambda>args. case byTag (fp_Tag args) of None \<Rightarrow> zero_RemoveFilesystemParams | Some a \<Rightarrow> a) ps)
        = Some part"
    using r by (cases "partitionRemoveFilesystemParams (map fp_Tag ps)
          (map (\<lambda>args. case byTag (fp_Tag args) of None \<Rightarrow> zero_RemoveFilesystemParams | Some a \<Rightarrow> a) ps)")
       (auto simp: removeFilesystems_source_def Let_def)
  obtain dt di rt ri where part: "part = (dt, di, rt, ri)" by (cases part)
  obtain src where src: "lookup_source srcs n = Some src"
    using r p part by (cases "lookup_source srcs n") (auto simp: removeFilesystems_source_def Let_def)
  let ?D = "removeFilesystems_func ops dt di (Provider_DestroyFilesystems n) (DestroyFilesystems src) a"
  obtain a1 where d: "?D = Inr a1"
    using r p part src by (cases "traced ?D") (auto simp: removeFilesystems_source_def Let_def traced_Inr)
  have l: "removeFilesystems_func ops rt ri (Provider_ReleaseFilesystems n) (ReleaseFilesystems src) a1 = Inr a'"
    using r p part src d by (simp add: removeFilesystems_source_def Let_def traced_Inr)
  from removeFilesystems_func_trace(1)[OF _ d] obtain d1 where
    "trace a1 = trace a @ d1" "\<forall>e\<in>set d1. \<not> is_flush e" by auto
  moreover from removeFilesystems_func_trace(1)[OF _ l] obtain d2 where
    "trace a' = trace a1 @ d2" "\<forall>e\<in>set d2. \<not> is_flush e" by auto
  ultimately have "trace a' = trace a @ (d1 @ d2) \<and> (\<forall>e\<in>set (d1 @ d2). \<not> is_flush e)" by auto
  then show "\<exists>d. trace a' = trace a @ d \<and> (\<forall>e\<in>set d. \<not> is_flush e)" by blast
next
  assume r: "removeFilesystems_source ops byTag srcs n ps a = Inl (out, tr)"
  show "out \<noteq> Return None \<and> (\<exists>d. tr = trace a @ d \<and> (\<forall>e\<in>set d. \<not> is_flush e))"
  proof (cases "partitionRemoveFilesystemParams (map fp_Tag ps)
          (map (\<lambda>args. case byTag (fp_Tag args) of None \<Rightarrow> zero_RemoveFilesystemParams | Some a \<Rightarrow> a) ps)")
    case None
    with r show ?thesis by (auto simp: removeFilesystems_source_def Let_def)
  next
    case (Some part)
    obtain dt di rt ri where part: "part = (dt, di, rt, ri)" by (cases part)
    show ?thesis
    proof (cases "lookup_source srcs n")
      case None
      with r Some part show ?thesis by (auto simp: removeFilesystems_source_def Let_def)
    next
      case (Some src)
      note src = Some
      let ?D = "removeFilesystems_func ops dt di (Provider_DestroyFilesystems n) (DestroyFilesystems src) a"
      show ?thesis
      proof (cases "traced ?D")
        case (Inl stop)
        with r \<open>partitionRemoveFilesystemParams _ _ = Some part\<close> part src
        have "traced ?D = Inl (out, tr)"
          by (simp add: removeFilesystems_source_def Let_def)
        from traced_Inl[OF this] obtain out' where
          o: "?D = Inl (out', tr)" "out = Return None \<longrightarrow> out' = Return None" by auto
        from removeFilesystems_func_trace(2)[OF _ o(1)] o(2) show ?thesis by auto
      next
        case (Inr a1)
        then have d: "?D = Inr a1" by (simp add: traced_Inr)
        let ?R = "removeFilesystems_func ops rt ri (Provider_ReleaseFilesystems n) (ReleaseFilesystems src) a1"
        from r \<open>partitionRemoveFilesystemParams _ _ = Some part\<close> part src Inr
        have "traced ?R = Inl (out, tr)"
          by (simp add: removeFilesystems_source_def Let_def)
        from traced_Inl[OF this] obtain out' where
          o: "?R = Inl (out', tr)" "out = Return None \<longrightarrow> out' = Return None" by auto
        from removeFilesystems_func_trace(1)[OF _ d] obtain d1 where
          d1: "trace a1 = trace a @ d1" "\<forall>e\<in>set d1. \<not> is_flush e" by auto
        from removeFilesystems_func_trace(2)[OF _ o(1)] obtain d2 where
          d2: "out' \<noteq> Return None" "tr = trace a1 @ d2" "\<forall>e\<in>set d2. \<not> is_flush e" by auto
        from d1 d2 have "tr = trace a @ (d1 @ d2) \<and> (\<forall>e\<in>set (d1 @ d2). \<not> is_flush e)" by auto
        with o(2) d2(1) show ?thesis by blast
      qed
    qed
  qed
qed

subsection \<open>The events of the publishing steps\<close>

lemma createFilesystems_errorResults_logs:
  "createFilesystems_errorResults fss rs = Some logs \<Longrightarrow>
   \<forall>e\<in>set logs. \<not> is_flush e \<and> \<not> is_provider_call e"
  by (induction fss rs arbitrary: logs rule: createFilesystems_errorResults.induct)
     (auto split: option.splits)

lemma setFilesystemAttachmentInfo_results_events:
  "setFilesystemAttachmentInfo_results fas rs ctx ev = (out, ctx', ev') \<Longrightarrow>
   \<exists>d. ev' = ev @ d \<and> (\<forall>e\<in>set d. \<not> is_flush e \<and> \<not> is_provider_call e)"
  by (induction fas rs ctx ev rule: setFilesystemAttachmentInfo_results.induct)
     (auto simp: Let_def)

lemma setFilesystemAttachmentInfo_events:
  "setFilesystemAttachmentInfo ctx fas = (out, ctx', ev) \<Longrightarrow>
   \<forall>e\<in>set ev. \<not> is_flush e \<and> \<not> is_provider_call e"
  by (auto simp: setFilesystemAttachmentInfo_def Let_def split: if_splits sum.splits
           dest!: setFilesystemAttachmentInfo_results_events)

lemma createFilesystems_publish_events:
  "createFilesystems_publish ctx acc = (out, ctx', ev) \<Longrightarrow>
   \<exists>post. ev = flush acc @ post \<and> (\<forall>e\<in>set post. \<not> is_flush e \<and> \<not> is_provider_call e)"
  by (auto simp: createFilesystems_publish_def Let_def split: if_splits sum.splits option.splits
           dest!: createFilesystems_errorResults_logs)

lemma attachFilesystems_publish_events:
  "attachFilesystems_publish ctx acc = (out, ctx', ev) \<Longrightarrow>
   \<exists>post. ev = flush acc @ post \<and> (\<forall>e\<in>set post. \<not> is_flush e \<and> \<not> is_provider_call e)"
  by (auto simp: attachFilesystems_publish_def split: prod.splits outcome.splits option.splits
           dest!: setFilesystemAttachmentInfo_events)

lemma removeFilesystems_publish_events:
  "removeFilesystems_publish ctx acc = (out, ctx', ev) \<Longrightarrow>
   \<exists>post. ev = flush acc @ post \<and> (\<forall>e\<in>set post. \<not> is_flush e \<and> \<not> is_provider_call e)"
  by (auto simp: removeFilesystems_publish_def Let_def split: option.splits)

lemma detachFilesystems_publish_events:
  "detachFilesystems_publish ctx acc = (out, ctx', ev) \<Longrightarrow>
   \<exists>post. ev = flush acc @ post \<and> (\<forall>e\<in>set post. \<not> is_flush e \<and> \<not> is_provider_call e)"
  by (auto simp: detachFilesystems_publish_def Let_def split: option.splits)

text \<open>A pass that returns nil has run its per-source loop to the end and then published.\<close>

lemma pass_flushes_once:
  assumes ok: "\<And>n ps a a'. body n ps a = Inr a' \<Longrightarrow>
             \<exists>d. trace a' = trace a @ d \<and> (\<forall>e\<in>set d. \<not> is_flush e)"
    and stop: "\<And>n ps a out tr. body n ps a = Inl (out, tr) \<Longrightarrow> out \<noteq> Return None"
    and pub: "\<And>acc out ctx' ev. publish acc = (out, ctx', ev) \<Longrightarrow>
             \<exists>post. ev = flush acc @ post \<and> (\<forall>e\<in>set post. \<not> is_flush e \<and> \<not> is_provider_call e)"
    and run: "(case range_sources body pbs no_locals of
                 Inl (out, tr) \<Rightarrow> (out, ctx, tr)
               | Inr acc \<Rightarrow> publish acc) = (Return None, ctx', ev)"
  shows "\<exists>pre rs sts post.
           ev = pre @ [Called_scheduleOperations rs, Called_setStatus sts] @ post
           \<and> (\<forall>e\<in>set pre. \<not> is_flush e)
           \<and> (\<forall>e\<in>set post. \<not> is_flush e \<and> \<not> is_provider_call e)"
proof (cases "range_sources body pbs no_locals")
  case (Inl s)
  obtain out tr where s: "s = (out, tr)" by (cases s)
  from range_sources_stopped_at[OF Inl] s stop have "out \<noteq> Return None" by blast
  with run Inl s show ?thesis by simp
next
  case (Inr acc)
  with run have p: "publish acc = (Return None, ctx', ev)" by simp
  from pub[OF p] obtain post where
    post: "ev = flush acc @ post" "\<forall>e\<in>set post. \<not> is_flush e \<and> \<not> is_provider_call e" by auto
  have "\<exists>d. trace acc = trace (no_locals :: 'b locals) @ d \<and> (\<forall>e\<in>set d. \<not> is_flush e)"
    by (rule range_sources_append[OF _ Inr]) (rule ok)
  then have "\<forall>e\<in>set (trace acc). \<not> is_flush e" by (auto simp: no_locals_def)
  with post have "ev = trace acc @ [Called_scheduleOperations (reschedule acc), Called_setStatus (statuses acc)] @ post
      \<and> (\<forall>e\<in>set (trace acc). \<not> is_flush e)
      \<and> (\<forall>e\<in>set post. \<not> is_flush e \<and> \<not> is_provider_call e)"
    by (simp add: flush_def)
  then show ?thesis by blast
qed

subsection \<open>The body of the create loop\<close>

lemma validateFilesystemParams_char:
  "validateFilesystemParams src ps =
     (filter (\<lambda>p. ValidateFilesystemParams src p = None) ps, map (ValidateFilesystemParams src) ps)"
  by (induction ps) (auto split: option.splits)

lemma createFilesystems_validationErrors_char:
  "createFilesystems_validationErrors ps (map (ValidateFilesystemParams src) ps) =
     Some (rejected_statuses src ps)"
  by (induction ps)
     (auto simp: rejected_statuses_def spec_validation_status_def split: option.splits)

lemma createFilesystems_source_char:
  assumes src: "lookup_source srcs n = Some src"
    and run: "createFilesystems_source ops srcs n ps acc = Inr acc'"
  shows "\<exists>rs. (let valid = filter (\<lambda>p. ValidateFilesystemParams src p = None) ps in
           (if valid = [] then rs = [] else CreateFilesystems src valid = Inr rs)
           \<and> length rs \<le> length valid
           \<and> statuses acc' = statuses acc @ rejected_statuses src ps
                @ map (\<lambda>(p, r). spec_create_status p r) (zip valid rs)
           \<and> reschedule acc' = reschedule acc @
                map (\<lambda>(p, r). OpCreate (map_of ops (fp_Tag p)))
                  (filter (\<lambda>(p, r). cr_Error r \<noteq> None) (zip valid rs))
           \<and> map Some (collected acc') = map Some (collected acc) @
                map cr_Filesystem (filter (\<lambda>r. cr_Error r = None) rs)
           \<and> trace acc' = trace acc @
                (if valid = [] then [] else [Provider_CreateFilesystems n valid]))"
proof -
  let ?valid = "filter (\<lambda>p. ValidateFilesystemParams src p = None) ps"
  show ?thesis
  proof (cases "?valid = []")
    case True
    with src run have "acc' = acc\<lparr>statuses := statuses acc @ rejected_statuses src ps\<rparr>"
      by (simp add: createFilesystems_source_def validateFilesystemParams_char
            createFilesystems_validationErrors_char)
    with True show ?thesis by (simp add: Let_def)
  next
    case False
    let ?acc2 = "acc\<lparr>statuses := statuses acc @ rejected_statuses src ps,
                     trace := trace acc @ [Provider_CreateFilesystems n ?valid]\<rparr>"
    from False src run obtain rs where
      rs: "CreateFilesystems src ?valid = Inr rs"
      and res: "createFilesystems_results ops ?valid rs ?acc2 = Some acc'"
      by (auto simp: createFilesystems_source_def validateFilesystemParams_char
            createFilesystems_validationErrors_char Let_def split: sum.splits option.splits)
    from createFilesystems_results_char[OF res] False rs show ?thesis
      by (auto simp: Let_def)
  qed
qed

subsection \<open>Publishing to the controller\<close>

lemma createFilesystems_errorResults_char:
  "length ers \<le> length fss \<Longrightarrow>
   createFilesystems_errorResults fss ers =
     Some (concat (map (\<lambda>(f, r). case r of
                          None \<Rightarrow> []
                        | Some err \<Rightarrow> [Logged_Errorf_publishing (FilesystemTag_Id (fs_Tag f)) err])
                   (zip fss ers)))"
proof (induction ers arbitrary: fss)
  case Nil
  then show ?case by simp
next
  case (Cons r ers)
  then obtain f fss' where fss: "fss = f # fss'" by (cases fss) auto
  with Cons.prems have "length ers \<le> length fss'" by simp
  from Cons.IH[OF this] fss show ?case by (cases r) auto
qed


lemma createFilesystems_publish_char:
  assumes "collected acc \<noteq> []"
    and "SetFilesystemInfo ctx (filesystemsFromStorage (collected acc)) = Inr ers"
    and "length ers \<le> length (collected acc)"
  shows "createFilesystems_publish ctx acc =
     (Return None, foldl updateFilesystem ctx (collected acc),
      flush acc @ Called_SetFilesystemInfo (filesystemsFromStorage (collected acc))
        # concat (map (\<lambda>(f, r). case r of
                          None \<Rightarrow> []
                        | Some err \<Rightarrow> [Logged_Errorf_publishing (FilesystemTag_Id (fs_Tag f)) err])
                   (zip (collected acc) ers)))"
  using assms
  by (simp add: createFilesystems_publish_def Let_def createFilesystems_errorResults_char)


text \<open>The results of SetFilesystemAttachmentInfo.\<close>

lemma setFilesystemAttachmentInfo_results_all_ok:
  "length ers \<le> length fas \<Longrightarrow> \<forall>r\<in>set ers. r = None \<Longrightarrow>
   setFilesystemAttachmentInfo_results fas ers ctx ev =
     (Return None,
      ctx\<lparr>filesystemAttachments :=
            foldl (\<lambda>m fa. m(filesystemAttachmentId fa \<mapsto> fa)) (filesystemAttachments ctx)
              (take (length ers) fas)\<rparr>,
      ev @ map (\<lambda>fa. Called_removePendingFilesystemAttachment (filesystemAttachmentId fa))
             (take (length ers) fas))"
proof (induction ers arbitrary: fas ctx ev)
  case Nil
  then show ?case by simp
next
  case (Cons r ers)
  then obtain fa fas' where fas: "fas = fa # fas'" by (cases fas) auto
  with Cons.prems have l: "length ers \<le> length fas'" and n: "\<forall>r\<in>set ers. r = None" and r: "r = None"
    by simp_all
  show ?case
    unfolding fas r by (simp add: Cons.IH[OF l n] Let_def)
qed

lemma setFilesystemAttachmentInfo_results_first_error:
  "i < length fas \<Longrightarrow> i < length ers \<Longrightarrow> ers ! i = Some err \<Longrightarrow> \<forall>j<i. ers ! j = None \<Longrightarrow>
   setFilesystemAttachmentInfo_results fas ers ctx ev =
     (Return (Some (Annotated
        (''publishing attachment of '' @ FilesystemTag_Readable (fa_Filesystem (fas ! i)) @ '' to ''
           @ MachineTag_Readable (fa_Machine (fas ! i)) @ '' to state'') err)),
      ctx\<lparr>filesystemAttachments :=
            foldl (\<lambda>m fa. m(filesystemAttachmentId fa \<mapsto> fa)) (filesystemAttachments ctx) (take i fas)\<rparr>,
      ev @ map (\<lambda>fa. Called_removePendingFilesystemAttachment (filesystemAttachmentId fa)) (take i fas))"
proof (induction i arbitrary: fas ers ctx ev)
  case 0
  then obtain fa fas' r ers' where "fas = fa # fas'" "ers = r # ers'"
    by (cases fas; cases ers) auto
  with 0 show ?case by simp
next
  case (Suc i)
  then obtain fa fas' r ers' where s: "fas = fa # fas'" "ers = r # ers'"
    by (cases fas; cases ers) auto
  from Suc.prems(4) s have r: "r = None" by auto
  from Suc.prems s have p: "i < length fas'" "i < length ers'" "ers' ! i = Some err" "\<forall>j<i. ers' ! j = None"
    by auto
  show ?case
    unfolding s r by (simp add: Suc.IH[OF p] Let_def)
qed

lemma createFilesystems_source_stop:
  "createFilesystems_source ops srcs n ps a = Inl (out, tr) \<Longrightarrow>
   out = Panic \<or>
   (\<exists>err (src :: FilesystemSource) valid. out = Return (Some (Annotated (''creating filesystems from source '' @ fmt_q n) err))
      \<and> CreateFilesystems src valid = Inl err)"
  by (auto simp: createFilesystems_source_def Let_def
           split: option.splits prod.splits if_splits sum.splits)

subsection \<open>Removal\<close>






subsection \<open>The entries of the partitions and the events of the loop bodies\<close>

lemma filesystemParamsBySource_entry:
  assumes "filesystemParamsBySource dir params managed registry = Inr (pbs, srcs)"
    and "(n, ps) \<in> set pbs"
  shows "ps = filter (\<lambda>q. fp_Provider q = n) params \<and> lookup_source srcs n \<noteq> None"
proof -
  from assms(1) have p: "pbs = filesystemParamsBySource_partition params srcs []"
    by (auto simp: filesystemParamsBySource_def split: sum.splits)
  have "distinct (map fst pbs)" unfolding p by (rule partition_distinct) simp
  with assms(2) have "map_of pbs n = Some ps" by simp
  then have *: "(let new = filter (\<lambda>q. fp_Provider q = n \<and> lookup_source srcs n \<noteq> None) params in
      if new = [] then None else Some new) = Some ps"
    unfolding p partition_map_of by (simp add: Let_def split: if_splits)
  then have l: "lookup_source srcs n \<noteq> None"
    by (auto simp: Let_def filter_empty_conv split: if_splits)
  with * show ?thesis by (auto simp: Let_def split: if_splits)
qed

lemma filesystemParamsBySource_has_entry:
  assumes "filesystemParamsBySource dir params managed registry = Inr (pbs, srcs)"
    and "p \<in> set params" and "lookup_source srcs (fp_Provider p) = Some src"
  shows "(fp_Provider p, filter (\<lambda>q. fp_Provider q = fp_Provider p) params) \<in> set pbs"
proof -
  from assms(1) have pb: "pbs = filesystemParamsBySource_partition params srcs []"
    by (auto simp: filesystemParamsBySource_def split: sum.splits)
  let ?n = "fp_Provider p"
  from assms(2,3) have ne: "filter (\<lambda>q. fp_Provider q = ?n \<and> lookup_source srcs ?n \<noteq> None) params \<noteq> []"
    by (auto simp: filter_empty_conv)
  from assms(3) have eq: "filter (\<lambda>q. fp_Provider q = ?n \<and> lookup_source srcs ?n \<noteq> None) params =
       filter (\<lambda>q. fp_Provider q = ?n) params" by simp
  from ne have "map_of pbs ?n = Some (filter (\<lambda>q. fp_Provider q = ?n \<and> lookup_source srcs ?n \<noteq> None) params)"
    unfolding pb partition_map_of by (simp add: Let_def)
  from map_of_SomeD[OF this] eq show ?thesis by simp
qed

lemma createFilesystems_source_events:
  "createFilesystems_source ops srcs n ps a = Inr a' \<Longrightarrow>
     \<exists>d. trace a' = trace a @ d
        \<and> (\<forall>e\<in>set d. \<exists>src. lookup_source srcs n = Some src
              \<and> e = Provider_CreateFilesystems n (filter (\<lambda>p. ValidateFilesystemParams src p = None) ps))"
  "createFilesystems_source ops srcs n ps a = Inl (out, tr) \<Longrightarrow>
     \<exists>d. tr = trace a @ d
        \<and> (\<forall>e\<in>set d. \<exists>src. lookup_source srcs n = Some src
              \<and> e = Provider_CreateFilesystems n (filter (\<lambda>p. ValidateFilesystemParams src p = None) ps))"
  by (auto simp: createFilesystems_source_def Let_def validateFilesystemParams_char
           split: option.splits if_splits sum.splits
           dest!: createFilesystems_results_char)

lemma createFilesystems_source_reschedule:
  assumes "createFilesystems_source ops srcs n ps a = Inr a'"
  shows "\<exists>d. reschedule a' = reschedule a @ d
        \<and> (\<forall>r\<in>set d. \<exists>q src. q \<in> set ps \<and> lookup_source srcs n = Some src
              \<and> ValidateFilesystemParams src q = None \<and> r = OpCreate (map_of ops (fp_Tag q)))"
proof (cases "lookup_source srcs n")
  case None
  with assms have "a' = a"
    by (auto simp: createFilesystems_source_def split: if_splits)
  then show ?thesis by simp
next
  case (Some src)
  let ?valid = "filter (\<lambda>p. ValidateFilesystemParams src p = None) ps"
  from createFilesystems_source_char[OF Some assms] obtain rs where
    "let valid = filter (\<lambda>p. ValidateFilesystemParams src p = None) ps in
           (if valid = [] then rs = [] else CreateFilesystems src valid = Inr rs)
           \<and> length rs \<le> length valid
           \<and> statuses a' = statuses a @ rejected_statuses src ps
                @ map (\<lambda>(p, r). spec_create_status p r) (zip valid rs)
           \<and> reschedule a' = reschedule a @
                map (\<lambda>(p, r). OpCreate (map_of ops (fp_Tag p)))
                  (filter (\<lambda>(p, r). cr_Error r \<noteq> None) (zip valid rs))
           \<and> map Some (collected a') = map Some (collected a) @
                map cr_Filesystem (filter (\<lambda>r. cr_Error r = None) rs)
           \<and> trace a' = trace a @
                (if valid = [] then [] else [Provider_CreateFilesystems n valid])"
    by (rule exE)
  then have
    re: "reschedule a' = reschedule a @
          map (\<lambda>(p, r). OpCreate (map_of ops (fp_Tag p)))
            (filter (\<lambda>(p, r). cr_Error r \<noteq> None) (zip ?valid rs))"
    by (simp add: Let_def)
  have "\<forall>r\<in>set (map (\<lambda>(p, r). OpCreate (map_of ops (fp_Tag p)))
            (filter (\<lambda>(p, r). cr_Error r \<noteq> None) (zip ?valid rs))).
        \<exists>q src. q \<in> set ps \<and> lookup_source srcs n = Some src
              \<and> ValidateFilesystemParams src q = None \<and> r = OpCreate (map_of ops (fp_Tag q))"
  proof
    fix r assume "r \<in> set (map (\<lambda>(p, r). OpCreate (map_of ops (fp_Tag p)))
            (filter (\<lambda>(p, r). cr_Error r \<noteq> None) (zip ?valid rs)))"
    then obtain q x where "(q, x) \<in> set (zip ?valid rs)" "r = OpCreate (map_of ops (fp_Tag q))"
      by auto
    moreover then have "q \<in> set ?valid" by (meson set_zip_leftD)
    ultimately show "\<exists>q src. q \<in> set ps \<and> lookup_source srcs n = Some src
              \<and> ValidateFilesystemParams src q = None \<and> r = OpCreate (map_of ops (fp_Tag q))"
      using Some by auto
  qed
  with re show ?thesis by blast
qed

lemma createFilesystems_source_rejected:
  assumes "lookup_source srcs n = Some src" and "createFilesystems_source ops srcs n ps a = Inr a'"
    and "p \<in> set ps" and "ValidateFilesystemParams src p = Some err"
  shows "spec_validation_status p err \<in> set (statuses a')"
proof -
  from assms(3,4) have "spec_validation_status p err \<in> set (rejected_statuses src ps)"
    by (force simp: rejected_statuses_def)
  with createFilesystems_source_char[OF assms(1,2)] show ?thesis
    by (auto simp: Let_def)
qed

lemma createFilesystems_source_statuses:
  assumes "createFilesystems_source ops srcs n ps a = Inr a'"
  shows "\<exists>d. statuses a' = statuses a @ d"
proof (cases "lookup_source srcs n")
  case None
  with assms have "a' = a"
    by (auto simp: createFilesystems_source_def split: if_splits)
  then show ?thesis by simp
next
  case (Some src)
  from createFilesystems_source_char[OF Some assms] show ?thesis
    by (auto simp: Let_def)
qed




subsection \<open>Claim C1: per-entity errors of the persistence calls\<close>

text \<open>
  C1, as the code has it. In \<open>createFilesystems\<close>, when \<^verbatim>\<open>SetFilesystemInfo\<close> returns
  results, every per-entity error is logged, every collected filesystem is merged
  into the cache and the executor returns nil; the only errors the executor ever
  returns are the error of the partition by source, the error of a bulk create call
  and the top-level error of \<^verbatim>\<open>SetFilesystemInfo\<close>. In \<open>attachFilesystems\<close> the first
  per-entity error of \<^verbatim>\<open>SetFilesystemAttachmentInfo\<close> is returned, annotated and traced:
  the attachments before it are recorded in the context, those from it on are not.
\<close>

theorem per_entity_persistence_errors:
  "(collected acc \<noteq> [] \<and> SetFilesystemInfo ctx (filesystemsFromStorage (collected acc)) = Inr ers
      \<and> length ers \<le> length (collected acc) \<longrightarrow>
      createFilesystems_publish ctx acc =
        (Return None, foldl updateFilesystem ctx (collected acc),
         flush acc @ Called_SetFilesystemInfo (filesystemsFromStorage (collected acc))
           # concat (map (\<lambda>(f, r). case r of
                            None \<Rightarrow> []
                          | Some err \<Rightarrow> [Logged_Errorf_publishing (FilesystemTag_Id (fs_Tag f)) err])
                     (zip (collected acc) ers))))
   \<and> (createFilesystems seed ctx ops = (Return (Some e), ctx', ev) \<longrightarrow>
        (\<exists>err. e = Traced err
           \<and> filesystemParamsBySource (StorageDir ctx) (map (\<lambda>(tag, op). cf_args op) ops)
                (managedFilesystemSource ctx) (Registry ctx) = Inl err)
        \<or> (\<exists>n err (src :: FilesystemSource) valid. e = Annotated (''creating filesystems from source '' @ fmt_q n) err
              \<and> CreateFilesystems src valid = Inl err)
        \<or> (\<exists>fss err. e = Annotated ''publishing filesystems to state'' err
              \<and> SetFilesystemInfo ctx fss = Inl err))
   \<and> (i < length (collected aacc)
        \<and> SetFilesystemAttachmentInfo ctx (filesystemAttachmentsFromStorage (collected aacc)) = Inr aers
        \<and> i < length aers \<and> aers ! i = Some aerr \<and> (\<forall>j<i. aers ! j = None) \<longrightarrow>
      attachFilesystems_publish ctx aacc =
        (Return (Some (Traced (Annotated
           (''publishing attachment of '' @ FilesystemTag_Readable (fa_Filesystem (collected aacc ! i))
              @ '' to '' @ MachineTag_Readable (fa_Machine (collected aacc ! i)) @ '' to state'') aerr))),
         ctx\<lparr>filesystemAttachments :=
               foldl (\<lambda>m fa. m(filesystemAttachmentId fa \<mapsto> fa)) (filesystemAttachments ctx)
                 (take i (collected aacc))\<rparr>,
         flush aacc @ Called_SetFilesystemAttachmentInfo (filesystemAttachmentsFromStorage (collected aacc))
           # map (\<lambda>fa. Called_removePendingFilesystemAttachment (filesystemAttachmentId fa))
               (take i (collected aacc))))"
proof (intro conjI impI)
  assume "collected acc \<noteq> [] \<and> SetFilesystemInfo ctx (filesystemsFromStorage (collected acc)) = Inr ers
      \<and> length ers \<le> length (collected acc)"
  then show "createFilesystems_publish ctx acc =
        (Return None, foldl updateFilesystem ctx (collected acc),
         flush acc @ Called_SetFilesystemInfo (filesystemsFromStorage (collected acc))
           # concat (map (\<lambda>(f, r). case r of
                            None \<Rightarrow> []
                          | Some err \<Rightarrow> [Logged_Errorf_publishing (FilesystemTag_Id (fs_Tag f)) err])
                     (zip (collected acc) ers)))"
    by (intro createFilesystems_publish_char) simp_all
next
  assume run: "createFilesystems seed ctx ops = (Return (Some e), ctx', ev)"
  let ?P = "filesystemParamsBySource (StorageDir ctx) (map (\<lambda>(tag, op). cf_args op) ops)
                (managedFilesystemSource ctx) (Registry ctx)"
  show "(\<exists>err. e = Traced err \<and> ?P = Inl err)
        \<or> (\<exists>n err (src :: FilesystemSource) valid. e = Annotated (''creating filesystems from source '' @ fmt_q n) err
              \<and> CreateFilesystems src valid = Inl err)
        \<or> (\<exists>fss err. e = Annotated ''publishing filesystems to state'' err
              \<and> SetFilesystemInfo ctx fss = Inl err)"
  proof (cases ?P)
    case (Inl err)
    with run show ?thesis by (simp add: createFilesystems_def)
  next
    case (Inr r)
    obtain pbs srcs where r: "r = (pbs, srcs)" by (cases r)
    show ?thesis
    proof (cases "range_sources (createFilesystems_source ops srcs) (range_order seed pbs) no_locals")
      case (Inl stop)
      with run Inr r have stop: "stop = (Return (Some e), ev)"
        by (auto simp: createFilesystems_def split: prod.splits)
      from range_sources_stopped_at[OF Inl] stop obtain n ps a where
        "createFilesystems_source ops srcs n ps a = Inl (Return (Some e), ev)" by auto
      from createFilesystems_source_stop[OF this] show ?thesis by blast
    next
      case (Inr acc1)
      with run \<open>?P = Inr r\<close> r have "createFilesystems_publish ctx acc1 = (Return (Some e), ctx', ev)"
        by (simp add: createFilesystems_def)
      then show ?thesis
        by (auto simp: createFilesystems_publish_def Let_def split: if_splits sum.splits option.splits)
    qed
  qed
next
  assume a: "i < length (collected aacc)
        \<and> SetFilesystemAttachmentInfo ctx (filesystemAttachmentsFromStorage (collected aacc)) = Inr aers
        \<and> i < length aers \<and> aers ! i = Some aerr \<and> (\<forall>j<i. aers ! j = None)"
  then have ne: "collected aacc \<noteq> []" by auto
  from a have "setFilesystemAttachmentInfo_results (collected aacc) aers ctx
        [Called_SetFilesystemAttachmentInfo (filesystemAttachmentsFromStorage (collected aacc))] =
     (Return (Some (Annotated
        (''publishing attachment of '' @ FilesystemTag_Readable (fa_Filesystem (collected aacc ! i)) @ '' to ''
           @ MachineTag_Readable (fa_Machine (collected aacc ! i)) @ '' to state'') aerr)),
      ctx\<lparr>filesystemAttachments :=
            foldl (\<lambda>m fa. m(filesystemAttachmentId fa \<mapsto> fa)) (filesystemAttachments ctx)
              (take i (collected aacc))\<rparr>,
      [Called_SetFilesystemAttachmentInfo (filesystemAttachmentsFromStorage (collected aacc))]
        @ map (\<lambda>fa. Called_removePendingFilesystemAttachment (filesystemAttachmentId fa))
            (take i (collected aacc)))"
    by (intro setFilesystemAttachmentInfo_results_first_error) simp_all
  with a ne show "attachFilesystems_publish ctx aacc =
        (Return (Some (Traced (Annotated
           (''publishing attachment of '' @ FilesystemTag_Readable (fa_Filesystem (collected aacc ! i))
              @ '' to '' @ MachineTag_Readable (fa_Machine (collected aacc ! i)) @ '' to state'') aerr))),
         ctx\<lparr>filesystemAttachments :=
               foldl (\<lambda>m fa. m(filesystemAttachmentId fa \<mapsto> fa)) (filesystemAttachments ctx)
                 (take i (collected aacc))\<rparr>,
         flush aacc @ Called_SetFilesystemAttachmentInfo (filesystemAttachmentsFromStorage (collected aacc))
           # map (\<lambda>fa. Called_removePendingFilesystemAttachment (filesystemAttachmentId fa))
               (take i (collected aacc)))"
    by (simp add: attachFilesystems_publish_def setFilesystemAttachmentInfo_def)
qed

theorem per_entity_persistence_errors_witness:
  "collected ex_publish_locals \<noteq> []
   \<and> SetFilesystemInfo ex_ctx (filesystemsFromStorage (collected ex_publish_locals)) =
       Inr [Some (New ''rejected''), None]
   \<and> createFilesystems_publish ex_ctx ex_publish_locals =
        (Return None, foldl updateFilesystem ex_ctx (collected ex_publish_locals),
         flush ex_publish_locals
           @ Called_SetFilesystemInfo (filesystemsFromStorage (collected ex_publish_locals))
           # concat (map (\<lambda>(f, r). case r of
                            None \<Rightarrow> []
                          | Some err \<Rightarrow> [Logged_Errorf_publishing (FilesystemTag_Id (fs_Tag f)) err])
                     (zip (collected ex_publish_locals) [Some (New ''rejected''), None])))
   \<and> fst (createFilesystems [] ex_ctx_down [ex_create_op ''5'' ''loop'' 10]) =
        Return (Some (Annotated ''publishing filesystems to state'' (New ''connection is shut down'')))
   \<and> (\<exists>fss err. Annotated ''publishing filesystems to state'' (New ''connection is shut down'') =
          Annotated ''publishing filesystems to state'' err
        \<and> SetFilesystemInfo ex_ctx_down fss = Inl err)
   \<and> SetFilesystemAttachmentInfo ex_ctx (filesystemAttachmentsFromStorage (collected ex_attach_locals)) =
       Inr [None, Some (New ''rejected''), None]
   \<and> attachFilesystems_publish ex_ctx ex_attach_locals =
        (Return (Some (Traced (Annotated
           (''publishing attachment of '' @ FilesystemTag_Readable (fa_Filesystem (collected ex_attach_locals ! 1))
              @ '' to '' @ MachineTag_Readable (fa_Machine (collected ex_attach_locals ! 1)) @ '' to state'')
           (New ''rejected'')))),
         ex_ctx\<lparr>filesystemAttachments :=
               foldl (\<lambda>m fa. m(filesystemAttachmentId fa \<mapsto> fa)) (filesystemAttachments ex_ctx)
                 (take 1 (collected ex_attach_locals))\<rparr>,
         flush ex_attach_locals
           @ Called_SetFilesystemAttachmentInfo (filesystemAttachmentsFromStorage (collected ex_attach_locals))
           # map (\<lambda>fa. Called_removePendingFilesystemAttachment (filesystemAttachmentId fa))
               (take 1 (collected ex_attach_locals)))"
proof -
  have h1: "collected ex_publish_locals \<noteq> []
     \<and> SetFilesystemInfo ex_ctx (filesystemsFromStorage (collected ex_publish_locals)) =
         Inr [Some (New ''rejected''), None]
     \<and> length [Some (New ''rejected''), None] \<le> length (collected ex_publish_locals)"
    by (simp add: ex_publish_locals_def ex_ctx_def filesystemsFromStorage_def ex_fs_def)
  have h2: "fst (createFilesystems [] ex_ctx_down [ex_create_op ''5'' ''loop'' 10]) =
        Return (Some (Annotated ''publishing filesystems to state'' (New ''connection is shut down'')))"
    by code_simp
  then have h2': "createFilesystems [] ex_ctx_down [ex_create_op ''5'' ''loop'' 10] =
      (Return (Some (Annotated ''publishing filesystems to state'' (New ''connection is shut down''))),
       fst (snd (createFilesystems [] ex_ctx_down [ex_create_op ''5'' ''loop'' 10])),
       snd (snd (createFilesystems [] ex_ctx_down [ex_create_op ''5'' ''loop'' 10])))"
    by (simp add: prod_eq_iff)
  have h3: "1 < length (collected ex_attach_locals)
     \<and> SetFilesystemAttachmentInfo ex_ctx (filesystemAttachmentsFromStorage (collected ex_attach_locals)) =
         Inr [None, Some (New ''rejected''), None]
     \<and> 1 < length [None, Some (New ''rejected''), None]
     \<and> [None, Some (New ''rejected''), None] ! 1 = Some (New ''rejected'')
     \<and> (\<forall>j<1. [None, Some (New ''rejected''), None :: error option] ! j = None)"
    by (simp add: ex_attach_locals_def ex_ctx_def filesystemAttachmentsFromStorage_def ex_fa_def)
  have h4: "\<not> (\<exists>err. Annotated ''publishing filesystems to state'' (New ''connection is shut down'') = Traced err
           \<and> filesystemParamsBySource (StorageDir ex_ctx_down)
                (map (\<lambda>(tag, op). cf_args op) [ex_create_op ''5'' ''loop'' 10])
                (managedFilesystemSource ex_ctx_down) (Registry ex_ctx_down) = Inl err)"
    by simp
  have h5: "\<not> (\<exists>n err (src :: FilesystemSource) valid. Annotated ''publishing filesystems to state'' (New ''connection is shut down'')
          = Annotated (''creating filesystems from source '' @ fmt_q n) err
              \<and> CreateFilesystems src valid = Inl err)"
    by simp
  note T = per_entity_persistence_errors
  note c1 = T[where acc = ex_publish_locals and ctx = ex_ctx and ers = "[Some (New ''rejected''), None]",
      THEN conjunct1, rule_format, OF h1]
  note c2 = T[where seed = "[]" and ctx = ex_ctx_down and ops = "[ex_create_op ''5'' ''loop'' 10]",
      THEN conjunct2, THEN conjunct1, rule_format, OF h2']
  note c3 = T[where ctx = ex_ctx and aacc = ex_attach_locals and i = 1
      and aers = "[None, Some (New ''rejected''), None]" and aerr = "New ''rejected''",
      THEN conjunct2, THEN conjunct2, rule_format, OF h3]
  from c2 h4 h5 have c2': "\<exists>fss err. Annotated ''publishing filesystems to state'' (New ''connection is shut down'') =
          Annotated ''publishing filesystems to state'' err
        \<and> SetFilesystemInfo ex_ctx_down fss = Inl err"
    by blast
  from h1 h2 h3 c1 c2' c3 show ?thesis by blast
qed

theorem attach_persistence_error_counterexample:
  "fst ex_attach_rejected_run =
     Return (Some (Traced (Annotated ''publishing attachment of filesystem 1 to machine 0 to state''
                             (New ''rejected''))))
   \<and> snd (snd ex_attach_rejected_run) =
      [Provider_AttachFilesystems ''tmpfs'' [ex_ap ''1'' ''tmpfs'' ''/bad'' False],
       Provider_AttachFilesystems ''loop''
         [ex_ap ''0'' ''loop'' ''/storage/0'' False, ex_ap ''2'' ''loop'' ''/storage/2'' False],
       Called_scheduleOperations [],
       Called_setStatus [ex_status ''filesystem-1'' ''attached'' [],
                         ex_status ''filesystem-0'' ''attached'' [],
                         ex_status ''filesystem-2'' ''attached'' []],
       Called_SetFilesystemAttachmentInfo
         (filesystemAttachmentsFromStorage
            [ex_fa ''1'' ''/bad'', ex_fa ''0'' ''/storage/0'', ex_fa ''2'' ''/storage/2''])]
   \<and> SetFilesystemAttachmentInfo ex_ctx
        (filesystemAttachmentsFromStorage
           [ex_fa ''1'' ''/bad'', ex_fa ''0'' ''/storage/0'', ex_fa ''2'' ''/storage/2'']) =
      Inr [Some (New ''rejected''), None, None]
   \<and> filesystemAttachments (fst (snd ex_attach_rejected_run))
        (filesystemAttachmentId (ex_fa ''0'' ''/storage/0'')) = None
   \<and> filesystemAttachments (fst (snd ex_attach_rejected_run))
        (filesystemAttachmentId (ex_fa ''2'' ''/storage/2'')) = None"
  by code_simp

subsection \<open>Claim C2: the partitions of the creation and the attachment path\<close>

text \<open>
  C2, as the code has it. On the creation path (\<open>filesystemParamsBySource\<close>) the
  partitions together hold exactly the input parameters whose provider name was not
  resolved to the nil source; the partition of a name is the input filtered by that
  name, in input order; a name is resolved to nil only when the registry answered
  with the non-dynamic error, and it is whenever the registry answered with an error
  for a name whose first parameter has no backing volume. On the attachment path
  (\<open>filesystemAttachmentParamsBySource\<close>) nothing is ever dropped: when the call
  succeeds the partitions hold every input parameter and no source is nil, and an
  error of the registry, the non-dynamic one included, makes the call fail with the
  annotated error.
\<close>

theorem partition_by_source:
  "(filesystemParamsBySource dir params managed registry = Inr (pbs, srcs) \<longrightarrow>
      mset (concat (map snd pbs)) = mset (filter (\<lambda>p. srcs (fp_Provider p) \<noteq> Some None) params)
      \<and> (\<forall>n. map_of pbs n =
             (let ps = filter (\<lambda>p. fp_Provider p = n) params
              in if ps = [] \<or> srcs n = Some None then None else Some ps))
      \<and> distinct (map fst pbs)
      \<and> (\<forall>n. srcs n = Some None \<longrightarrow> (\<exists>e. registry n = Inl e \<and> Cause e = errNonDynamic))
      \<and> (\<forall>n q. find (\<lambda>q. fp_Provider q = n) params = Some q \<and> fp_Volume q = VolumeTag []
             \<and> (\<exists>e. registry n = Inl e) \<longrightarrow> srcs n = Some None))
   \<and> (filesystemAttachmentParamsBySource dir aparams fss managed registry = Inr (apbs, asrcs) \<longrightarrow>
      mset (concat (map snd apbs)) = mset aparams
      \<and> (\<forall>n. map_of apbs n =
             (let ps = filter (\<lambda>p. ap_Provider p = n) aparams in if ps = [] then None else Some ps))
      \<and> distinct (map fst apbs)
      \<and> (\<forall>n. asrcs n \<noteq> Some None))
   \<and> (fss (ap_Filesystem a) = Some f \<and> fs_Volume f = VolumeTag [] \<and> registry (ap_Provider a) = Inl e \<longrightarrow>
      filesystemAttachmentParamsBySource dir (a # rest) fss managed registry =
        Inl (Annotated ''getting filesystem source'' e))"
proof (intro conjI impI allI)
  assume r: "filesystemParamsBySource dir params managed registry = Inr (pbs, srcs)"
  then have s: "filesystemParamsBySource_sources dir params managed registry Map.empty = Inr srcs"
    and p: "pbs = filesystemParamsBySource_partition params srcs []"
    by (auto simp: filesystemParamsBySource_def split: sum.splits)
  have eq: "\<And>q. q \<in> set params \<Longrightarrow>
      (lookup_source srcs (fp_Provider q) \<noteq> None) = (srcs (fp_Provider q) \<noteq> Some None)"
    using sources_dom[OF s] by (auto simp: lookup_source_def split: option.splits)
  show "mset (concat (map snd pbs)) = mset (filter (\<lambda>p. srcs (fp_Provider p) \<noteq> Some None) params)"
  proof -
    have "filter (\<lambda>q. lookup_source srcs (fp_Provider q) \<noteq> None) params =
          filter (\<lambda>p. srcs (fp_Provider p) \<noteq> Some None) params"
      by (rule filter_cong, rule refl, rule eq)
    then show ?thesis unfolding p partition_mset by simp
  qed
  show "distinct (map fst pbs)" unfolding p by (rule partition_distinct) simp
  {
    fix n
    let ?ps = "filter (\<lambda>p. fp_Provider p = n) params"
    have "filter (\<lambda>q. fp_Provider q = n \<and> lookup_source srcs n \<noteq> None) params =
          (if srcs n = Some None then [] else ?ps)"
    proof (cases "srcs n = Some None")
      case True
      then have "lookup_source srcs n = None" by (simp add: lookup_source_def)
      with True show ?thesis by simp
    next
      case False
      have "filter (\<lambda>q. fp_Provider q = n \<and> lookup_source srcs n \<noteq> None) params = ?ps"
      proof (rule filter_cong, rule refl)
        fix q assume "q \<in> set params"
        from eq[OF this] False
        show "(fp_Provider q = n \<and> lookup_source srcs n \<noteq> None) = (fp_Provider q = n)"
          by blast
      qed
      with False show ?thesis by simp
    qed
    then show "map_of pbs n = (let ps = ?ps in if ps = [] \<or> srcs n = Some None then None else Some ps)"
      unfolding p partition_map_of by (simp add: Let_def)
  }
  {
    fix n assume "srcs n = Some None"
    from sources_nonDynamic[OF s this] show "\<exists>e. registry n = Inl e \<and> Cause e = errNonDynamic"
      by simp
  }
  {
    fix n q
    assume "find (\<lambda>q. fp_Provider q = n) params = Some q \<and> fp_Volume q = VolumeTag []
             \<and> (\<exists>e. registry n = Inl e)"
    then show "srcs n = Some None"
      unfolding sources_char[OF s, of n] by auto
  }
next
  assume r: "filesystemAttachmentParamsBySource dir aparams fss managed registry = Inr (apbs, asrcs)"
  then have l: "filesystemAttachmentParamsBySource_loop dir aparams fss managed registry [] Map.empty = Inr (apbs, asrcs)"
    by (simp add: filesystemAttachmentParamsBySource_def)
  from attach_loop_mset[OF l] show "mset (concat (map snd apbs)) = mset aparams" by simp
  from attach_loop_distinct[OF l] show "distinct (map fst apbs)" by simp
  { fix n
    from attach_loop_map_of[OF l, of n]
    show "map_of apbs n = (let ps = filter (\<lambda>p. ap_Provider p = n) aparams in if ps = [] then None else Some ps)"
      by (simp add: Let_def)
    from attach_loop_no_nil[OF l, of n] show "asrcs n \<noteq> Some None" by simp
  }
next
  assume "fss (ap_Filesystem a) = Some f \<and> fs_Volume f = VolumeTag [] \<and> registry (ap_Provider a) = Inl e"
  then show "filesystemAttachmentParamsBySource dir (a # rest) fss managed registry =
        Inl (Annotated ''getting filesystem source'' e)"
    by (simp add: filesystemAttachmentParamsBySource_def filesystemSource_def Let_def)
qed

theorem partition_by_source_witness:
  "filesystemParamsBySource ''/storage''
       [ex_fp ''0'' ''loop'' 1, ex_fp ''1'' ''static'' 1, ex_fp ''2'' ''loop'' 2]
       (ex_source ''managed'') ex_registry =
     Inr ([(''loop'', [ex_fp ''0'' ''loop'' 1, ex_fp ''2'' ''loop'' 2])],
          [''loop'' \<mapsto> Some (ex_source ''loop''), ''static'' \<mapsto> None])
   \<and> mset (concat (map snd [(''loop'', [ex_fp ''0'' ''loop'' 1, ex_fp ''2'' ''loop'' 2])])) =
       mset (filter (\<lambda>p. [''loop'' \<mapsto> Some (ex_source ''loop''), ''static'' \<mapsto> None] (fp_Provider p) \<noteq> Some None)
              [ex_fp ''0'' ''loop'' 1, ex_fp ''1'' ''static'' 1, ex_fp ''2'' ''loop'' 2])
   \<and> (\<exists>e. ex_registry ''static'' = Inl e \<and> Cause e = errNonDynamic)
   \<and> find (\<lambda>q. fp_Provider q = ''static'')
        [ex_fp ''0'' ''loop'' 1, ex_fp ''1'' ''static'' 1, ex_fp ''2'' ''loop'' 2] = Some (ex_fp ''1'' ''static'' 1)
   \<and> filesystemAttachmentParamsBySource ''/storage''
       [ex_ap ''0'' ''loop'' [] False, ex_ap ''1'' ''tmpfs'' [] False, ex_ap ''2'' ''loop'' [] True]
       ex_cache (ex_source ''managed'') ex_registry =
     Inr ([(''loop'', [ex_ap ''0'' ''loop'' [] False, ex_ap ''2'' ''loop'' [] True]),
           (''tmpfs'', [ex_ap ''1'' ''tmpfs'' [] False])],
          [''loop'' \<mapsto> Some (ex_source ''loop''), ''tmpfs'' \<mapsto> Some (ex_source ''managed'')])
   \<and> mset (concat (map snd [(''loop'', [ex_ap ''0'' ''loop'' [] False, ex_ap ''2'' ''loop'' [] True]),
           (''tmpfs'', [ex_ap ''1'' ''tmpfs'' [] False])])) =
       mset [ex_ap ''0'' ''loop'' [] False, ex_ap ''1'' ''tmpfs'' [] False, ex_ap ''2'' ''loop'' [] True]
   \<and> filesystemAttachmentParamsBySource ''/storage'' [ex_ap ''0'' ''static'' [] False]
       ex_cache (ex_source ''managed'') ex_registry =
     Inl (Annotated ''getting filesystem source'' (Traced errNonDynamic))"
proof -
  let ?srcs = "[''loop'' \<mapsto> Some (ex_source ''loop''), ''static'' \<mapsto> None]"
  let ?pbs = "[(''loop'', [ex_fp ''0'' ''loop'' 1, ex_fp ''2'' ''loop'' 2])]"
  let ?asrcs = "[''loop'' \<mapsto> Some (ex_source ''loop''), ''tmpfs'' \<mapsto> Some (ex_source ''managed'')]"
  let ?apbs = "[(''loop'', [ex_ap ''0'' ''loop'' [] False, ex_ap ''2'' ''loop'' [] True]),
           (''tmpfs'', [ex_ap ''1'' ''tmpfs'' [] False])]"
  have h1: "filesystemParamsBySource ''/storage''
       [ex_fp ''0'' ''loop'' 1, ex_fp ''1'' ''static'' 1, ex_fp ''2'' ''loop'' 2]
       (ex_source ''managed'') ex_registry = Inr (?pbs, ?srcs)"
    by (simp add: filesystemParamsBySource_def ex_fp_def ex_registry_def filesystemSource_def
          lookup_source_def Let_def)
  have h2: "filesystemAttachmentParamsBySource ''/storage''
       [ex_ap ''0'' ''loop'' [] False, ex_ap ''1'' ''tmpfs'' [] False, ex_ap ''2'' ''loop'' [] True]
       ex_cache (ex_source ''managed'') ex_registry = Inr (?apbs, ?asrcs)"
    by (simp add: filesystemAttachmentParamsBySource_def ex_ap_def ex_registry_def
          filesystemSource_def ex_cache_def Let_def)
  have h3: "ex_cache (ap_Filesystem (ex_ap ''0'' ''static'' [] False)) =
              Some \<lparr>fs_Tag = FilesystemTag ''0'', fs_Volume = VolumeTag [],
                    fs_FilesystemId = ''id-0'', fs_Size = 10\<rparr>
            \<and> fs_Volume \<lparr>fs_Tag = FilesystemTag ''0'', fs_Volume = VolumeTag [],
                    fs_FilesystemId = ''id-0'', fs_Size = 10\<rparr> = VolumeTag []
            \<and> ex_registry (ap_Provider (ex_ap ''0'' ''static'' [] False)) = Inl (Traced errNonDynamic)"
    by (simp add: ex_cache_def ex_ap_def ex_registry_def)
  have s: "?srcs ''static'' = Some None" by simp
  have h4: "find (\<lambda>q. fp_Provider q = ''static'')
        [ex_fp ''0'' ''loop'' 1, ex_fp ''1'' ''static'' 1, ex_fp ''2'' ''loop'' 2] = Some (ex_fp ''1'' ''static'' 1)"
    by (simp add: ex_fp_def)
  note T = partition_by_source[where dir = "''/storage''"
      and params = "[ex_fp ''0'' ''loop'' 1, ex_fp ''1'' ''static'' 1, ex_fp ''2'' ''loop'' 2]"
      and managed = "ex_source ''managed''" and registry = ex_registry
      and pbs = ?pbs and srcs = ?srcs
      and aparams = "[ex_ap ''0'' ''loop'' [] False, ex_ap ''1'' ''tmpfs'' [] False, ex_ap ''2'' ''loop'' [] True]"
      and fss = ex_cache and apbs = ?apbs and asrcs = ?asrcs
      and a = "ex_ap ''0'' ''static'' [] False" and rest = "[]" and e = "Traced errNonDynamic"
      and f = "\<lparr>fs_Tag = FilesystemTag ''0'', fs_Volume = VolumeTag [],
                    fs_FilesystemId = ''id-0'', fs_Size = 10\<rparr>"]
  from T h1 h2 h3 h4 s show ?thesis by blast
qed

theorem attachment_params_nonDynamic_counterexample:
  "filesystemAttachmentParamsBySource ''/storage'' [ex_ap ''0'' ''static'' [] False]
       ex_cache (ex_source ''managed'') ex_registry =
     Inl (Annotated ''getting filesystem source'' (Traced errNonDynamic))
   \<and> Cause (Traced errNonDynamic) = errNonDynamic"
  by (simp add: filesystemAttachmentParamsBySource_def ex_ap_def ex_registry_def
        filesystemSource_def ex_cache_def Let_def)

subsection \<open>Claim C3: the default mount path\<close>



subsection \<open>Claim C4: parameters rejected by validation\<close>

text \<open>
  C4. Let the operations be keyed by the tag of their arguments, as the method
  \<^verbatim>\<open>key\<close> of a create operation has it, and let the source resolved for the provider of
  an operation's parameter reject the parameter. Then in every run of
  \<open>createFilesystems\<close>, for every order of the sources: the status records handed to
  \<^verbatim>\<open>setStatus\<close> include the record of the parameter's tag with status \<^verbatim>\<open>error\<close> and the
  message of the validation error (and \<^verbatim>\<open>setStatus\<close> is called whenever the run returns
  nil); no bulk \<^verbatim>\<open>CreateFilesystems\<close> call includes the parameter; and the list handed to
  \<^verbatim>\<open>scheduleOperations\<close> does not include the operation.
\<close>

theorem rejected_parameter_is_not_submitted:
  assumes op: "(k, op) \<in> set ops"
    and keys: "distinct (map fst ops)" "\<forall>(k', o')\<in>set ops. k' = fp_Tag (cf_args o')"
    and part: "filesystemParamsBySource (StorageDir ctx) (map (\<lambda>(tag, op). cf_args op) ops)
                 (managedFilesystemSource ctx) (Registry ctx) = Inr (pbs, srcs)"
    and src: "lookup_source srcs (fp_Provider (cf_args op)) = Some src"
    and rejected: "ValidateFilesystemParams src (cf_args op) = Some err"
    and run: "createFilesystems seed ctx ops = (out, ctx', ev)"
  shows "(\<forall>sts. Called_setStatus sts \<in> set ev \<longrightarrow>
            \<lparr>es_Tag = FilesystemTag_String (fp_Tag (cf_args op)), es_Status = ''error'',
              es_Info = error_Error err\<rparr> \<in> set sts)
       \<and> (out = Return None \<longrightarrow> (\<exists>sts. Called_setStatus sts \<in> set ev))
       \<and> (\<forall>n qs. Provider_CreateFilesystems n qs \<in> set ev \<longrightarrow> cf_args op \<notin> set qs)
       \<and> (\<forall>rs. Called_scheduleOperations rs \<in> set ev \<longrightarrow> OpCreate (Some op) \<notin> set rs)"
proof -
  let ?params = "map (\<lambda>(tag, op). cf_args op) ops"
  let ?p = "cf_args op"
  let ?body = "createFilesystems_source ops srcs"
  let ?L = "range_order seed pbs"
  let ?rec = "\<lparr>es_Tag = FilesystemTag_String (fp_Tag ?p), es_Status = ''error'',
              es_Info = error_Error err\<rparr>"
  let ?E = "\<lambda>e. \<not> is_flush e \<and> (\<forall>n qs. e = Provider_CreateFilesystems n qs \<longrightarrow> ?p \<notin> set qs)"
  let ?R = "\<lambda>r. \<exists>q s. q \<in> set ?params \<and> lookup_source srcs (fp_Provider q) = Some s
              \<and> ValidateFilesystemParams s q = None \<and> r = OpCreate (map_of ops (fp_Tag q))"
  have L: "set ?L = set pbs" by (rule set_range_order)
  from op have pin: "?p \<in> set ?params" by force
  have entry: "\<And>n ps. (n, ps) \<in> set ?L \<Longrightarrow> ps = filter (\<lambda>q. fp_Provider q = n) ?params"
    using filesystemParamsBySource_entry[OF part] L by blast
  have p_entry: "(fp_Provider ?p, filter (\<lambda>q. fp_Provider q = fp_Provider ?p) ?params) \<in> set ?L"
    using filesystemParamsBySource_has_entry[OF part pin src] L by simp
  \<comment> \<open>the events of one pass of the loop\<close>
  have ev_ok: "\<exists>d. trace a' = trace a @ d \<and> (\<forall>e\<in>set d. ?E e)"
    if "(n, ps) \<in> set ?L" "?body n ps a = Inr a'" for n ps a a'
  proof -
    from createFilesystems_source_events(1)[OF that(2)] obtain d where
      d: "trace a' = trace a @ d"
         "\<forall>e\<in>set d. \<exists>s. lookup_source srcs n = Some s
              \<and> e = Provider_CreateFilesystems n (filter (\<lambda>p. ValidateFilesystemParams s p = None) ps)"
      by blast
    have "?E e" if "e \<in> set d" for e
    proof -
      from d(2) that obtain s where s: "lookup_source srcs n = Some s"
        "e = Provider_CreateFilesystems n (filter (\<lambda>p. ValidateFilesystemParams s p = None) ps)"
        by blast
      have "?p \<notin> set (filter (\<lambda>p. ValidateFilesystemParams s p = None) ps)"
      proof
        assume "?p \<in> set (filter (\<lambda>p. ValidateFilesystemParams s p = None) ps)"
        then have in_ps: "?p \<in> set ps" and v: "ValidateFilesystemParams s ?p = None" by simp_all
        from entry[OF \<open>(n, ps) \<in> set ?L\<close>] in_ps have "fp_Provider ?p = n" by simp
        with s(1) src have "s = src" by simp
        with v rejected show False by simp
      qed
      with s(2) show ?thesis by simp
    qed
    with d(1) show ?thesis by blast
  qed
  have ev_stop: "\<exists>d. tr = trace a @ d \<and> (\<forall>e\<in>set d. ?E e)"
    if "(n, ps) \<in> set ?L" "?body n ps a = Inl (out', tr)" for n ps a out' tr
  proof -
    from createFilesystems_source_events(2)[OF that(2)] obtain d where
      d: "tr = trace a @ d"
         "\<forall>e\<in>set d. \<exists>s. lookup_source srcs n = Some s
              \<and> e = Provider_CreateFilesystems n (filter (\<lambda>p. ValidateFilesystemParams s p = None) ps)"
      by blast
    have "?E e" if "e \<in> set d" for e
    proof -
      from d(2) that obtain s where s: "lookup_source srcs n = Some s"
        "e = Provider_CreateFilesystems n (filter (\<lambda>p. ValidateFilesystemParams s p = None) ps)"
        by blast
      have "?p \<notin> set (filter (\<lambda>p. ValidateFilesystemParams s p = None) ps)"
      proof
        assume "?p \<in> set (filter (\<lambda>p. ValidateFilesystemParams s p = None) ps)"
        then have in_ps: "?p \<in> set ps" and v: "ValidateFilesystemParams s ?p = None" by simp_all
        from entry[OF \<open>(n, ps) \<in> set ?L\<close>] in_ps have "fp_Provider ?p = n" by simp
        with s(1) src have "s = src" by simp
        with v rejected show False by simp
      qed
      with s(2) show ?thesis by simp
    qed
    with d(1) show ?thesis by blast
  qed
  \<comment> \<open>the reschedule entries of one pass of the loop\<close>
  have re_ok: "\<exists>d. reschedule a' = reschedule a @ d \<and> (\<forall>r\<in>set d. ?R r)"
    if "(n, ps) \<in> set ?L" "?body n ps a = Inr a'" for n ps a a'
  proof -
    from createFilesystems_source_reschedule[OF that(2)] obtain d where
      d: "reschedule a' = reschedule a @ d"
         "\<forall>r\<in>set d. \<exists>q s. q \<in> set ps \<and> lookup_source srcs n = Some s
              \<and> ValidateFilesystemParams s q = None \<and> r = OpCreate (map_of ops (fp_Tag q))"
      by blast
    have "?R r" if "r \<in> set d" for r
    proof -
      from d(2) that obtain q s where q: "q \<in> set ps" "lookup_source srcs n = Some s"
        "ValidateFilesystemParams s q = None" "r = OpCreate (map_of ops (fp_Tag q))" by blast
      from entry[OF \<open>(n, ps) \<in> set ?L\<close>] q(1) have "q \<in> set ?params" "fp_Provider q = n" by simp_all
      with q show ?thesis by blast
    qed
    with d(1) show ?thesis by blast
  qed
  \<comment> \<open>an operation that passed validation is not the rejected one\<close>
  have not_op: "r \<noteq> OpCreate (Some op)" if "?R r" for r
  proof
    assume r: "r = OpCreate (Some op)"
    from that obtain q s where q: "q \<in> set ?params" "lookup_source srcs (fp_Provider q) = Some s"
      "ValidateFilesystemParams s q = None" "r = OpCreate (map_of ops (fp_Tag q))" by blast
    from q(4) r have "map_of ops (fp_Tag q) = Some op" by simp
    then have a: "(fp_Tag q, op) \<in> set ops" by (rule map_of_SomeD)
    from q(1) obtain k' o' where b: "(k', o') \<in> set ops" "q = cf_args o'" by auto
    with keys(2) have "k' = fp_Tag q" by auto
    with a b keys(1) have "o' = op" by (meson eq_key_imp_eq_value)
    with b have "q = ?p" by simp
    with q(2,3) src rejected show False by simp
  qed
  show ?thesis
  proof (cases "range_sources ?body ?L no_locals")
    case (Inl stop)
    obtain out' tr where stop: "stop = (out', tr)" by (cases stop)
    from run part Inl stop have o: "out = out'" "ev = tr"
      by (simp_all add: createFilesystems_def)
    have "\<exists>d. tr = trace (no_locals :: Filesystem locals) @ d \<and> (\<forall>e\<in>set d. ?E e)"
      by (rule range_sources_stop[OF _ _ Inl[unfolded stop]]) (use ev_ok ev_stop in blast)+
    then have E: "\<forall>e\<in>set ev. ?E e" using o by (simp add: no_locals_def)
    from range_sources_stopped_at[OF Inl] stop obtain n ps a where
      "?body n ps a = Inl (out', tr)" by blast
    from createFilesystems_source_trace(2)[OF this] o have "out \<noteq> Return None" by simp
    moreover from E have "\<And>sts. Called_setStatus sts \<notin> set ev" "\<And>rs. Called_scheduleOperations rs \<notin> set ev"
      by force+
    ultimately show ?thesis using E by blast
  next
    case (Inr acc)
    with run part have pub: "createFilesystems_publish ctx acc = (out, ctx', ev)"
      by (simp add: createFilesystems_def)
    from createFilesystems_publish_events[OF pub] obtain post where
      post: "ev = flush acc @ post" "\<forall>e\<in>set post. \<not> is_flush e \<and> \<not> is_provider_call e" by blast
    have "\<exists>d. trace acc = trace (no_locals :: Filesystem locals) @ d \<and> (\<forall>e\<in>set d. ?E e)"
      by (rule range_sources_append[OF _ Inr]) (use ev_ok in blast)
    then have E: "\<forall>e\<in>set (trace acc). ?E e" by (simp add: no_locals_def)
    have "\<exists>d. reschedule acc = reschedule (no_locals :: Filesystem locals) @ d \<and> (\<forall>r\<in>set d. ?R r)"
      by (rule range_sources_append[OF _ Inr]) (use re_ok in blast)
    then have R: "\<forall>r\<in>set (reschedule acc). ?R r" by (simp add: no_locals_def)
    have rec: "?rec \<in> set (statuses acc)"
    proof (rule range_sources_member[OF _ p_entry _ Inr])
      show "\<exists>d. statuses a' = statuses a @ d" if "?body n ps a = Inr a'" for n ps a a'
        using that by (rule createFilesystems_source_statuses)
      show "?rec \<in> set (statuses a')"
        if "?body (fp_Provider ?p) (filter (\<lambda>q. fp_Provider q = fp_Provider ?p) ?params) a = Inr a'" for a a'
        using createFilesystems_source_rejected[OF src that _ rejected] pin
        by (simp add: spec_validation_status_def)
    qed
    have sts: "sts = statuses acc" if "Called_setStatus sts \<in> set ev" for sts
      using that post E by (auto simp: flush_def)
    have rs: "rs = reschedule acc" if "Called_scheduleOperations rs \<in> set ev" for rs
      using that post E by (auto simp: flush_def)
    have calls: "?p \<notin> set qs" if "Provider_CreateFilesystems n qs \<in> set ev" for n qs
      using that post E by (auto simp: flush_def)
    have ex: "Called_setStatus (statuses acc) \<in> set ev" using post by (simp add: flush_def)
    from sts rec rs R not_op calls ex show ?thesis by blast
  qed
qed

theorem rejected_parameter_is_not_submitted_witness:
  "ex_create_op ''6'' ''tmpfs'' 0 \<in> set
     [ex_create_op ''5'' ''loop'' 10, ex_create_op ''6'' ''tmpfs'' 0, ex_create_op ''7'' ''loop'' 200,
      ex_create_op ''8'' ''static'' 5, ex_create_op ''9'' ''tmpfs'' 13]
   \<and> filesystemParamsBySource (StorageDir ex_ctx)
        (map (\<lambda>(tag, op). cf_args op)
          [ex_create_op ''5'' ''loop'' 10, ex_create_op ''6'' ''tmpfs'' 0, ex_create_op ''7'' ''loop'' 200,
           ex_create_op ''8'' ''static'' 5, ex_create_op ''9'' ''tmpfs'' 13])
        (managedFilesystemSource ex_ctx) (Registry ex_ctx) =
      Inr ([(''loop'', [ex_fp ''5'' ''loop'' 10, ex_fp ''7'' ''loop'' 200]),
            (''tmpfs'', [ex_fp ''6'' ''tmpfs'' 0, ex_fp ''9'' ''tmpfs'' 13])],
           [''loop'' \<mapsto> Some (ex_source ''loop''), ''tmpfs'' \<mapsto> Some (ex_source ''tmpfs''),
            ''static'' \<mapsto> None])
   \<and> ValidateFilesystemParams (ex_source ''tmpfs'') (cf_args (snd (ex_create_op ''6'' ''tmpfs'' 0))) =
        Some (New ''tmpfs: zero size'')
   \<and> fst ex_create_run = Return None
   \<and> (\<exists>sts. Called_setStatus sts \<in> set (snd (snd ex_create_run))
         \<and> \<lparr>es_Tag = FilesystemTag_String (fp_Tag (cf_args (snd (ex_create_op ''6'' ''tmpfs'' 0)))),
             es_Status = ''error'', es_Info = error_Error (New ''tmpfs: zero size'')\<rparr> \<in> set sts)
   \<and> Called_scheduleOperations [OpCreate (Some (snd (ex_create_op ''7'' ''loop'' 200)))]
        \<in> set (snd (snd ex_create_run))
   \<and> OpCreate (Some (snd (ex_create_op ''6'' ''tmpfs'' 0)))
        \<notin> set [OpCreate (Some (snd (ex_create_op ''7'' ''loop'' 200)))]
   \<and> Provider_CreateFilesystems ''tmpfs'' [ex_fp ''9'' ''tmpfs'' 13] \<in> set (snd (snd ex_create_run))
   \<and> cf_args (snd (ex_create_op ''6'' ''tmpfs'' 0)) \<notin> set [ex_fp ''9'' ''tmpfs'' 13]"
proof -
  let ?ops = "[ex_create_op ''5'' ''loop'' 10, ex_create_op ''6'' ''tmpfs'' 0, ex_create_op ''7'' ''loop'' 200,
      ex_create_op ''8'' ''static'' 5, ex_create_op ''9'' ''tmpfs'' 13]"
  let ?srcs = "[''loop'' \<mapsto> Some (ex_source ''loop''), ''tmpfs'' \<mapsto> Some (ex_source ''tmpfs''),
            ''static'' \<mapsto> None]"
  let ?op = "snd (ex_create_op ''6'' ''tmpfs'' 0)"
  have h0: "ex_create_op ''6'' ''tmpfs'' 0 \<in> set ?ops" by simp
  then have h1: "(FilesystemTag ''6'', ?op) \<in> set ?ops" by (simp add: ex_create_op_def)
  have h2: "distinct (map fst ?ops)" by (simp add: ex_create_op_def)
  have h3: "\<forall>(k', o')\<in>set ?ops. k' = fp_Tag (cf_args o')" by (simp add: ex_create_op_def ex_fp_def)
  have h4: "filesystemParamsBySource (StorageDir ex_ctx) (map (\<lambda>(tag, op). cf_args op) ?ops)
        (managedFilesystemSource ex_ctx) (Registry ex_ctx) =
      Inr ([(''loop'', [ex_fp ''5'' ''loop'' 10, ex_fp ''7'' ''loop'' 200]),
            (''tmpfs'', [ex_fp ''6'' ''tmpfs'' 0, ex_fp ''9'' ''tmpfs'' 13])], ?srcs)"
    by (simp add: filesystemParamsBySource_def ex_create_op_def ex_fp_def ex_ctx_def ex_registry_def
          filesystemSource_def lookup_source_def Let_def)
  have h5: "lookup_source ?srcs (fp_Provider (cf_args ?op)) = Some (ex_source ''tmpfs'')"
    by (simp add: lookup_source_def ex_create_op_def ex_fp_def)
  have h6: "ValidateFilesystemParams (ex_source ''tmpfs'') (cf_args ?op) = Some (New ''tmpfs: zero size'')"
    by (simp add: ex_source_def ex_create_op_def ex_fp_def)
  have h7: "createFilesystems [1] ex_ctx ?ops =
      (fst ex_create_run, fst (snd ex_create_run), snd (snd ex_create_run))"
    by (simp add: ex_create_run_def)
  have h8: "fst ex_create_run = Return None" unfolding ex_create_run_def by code_simp
  have h9: "Called_scheduleOperations [OpCreate (Some (snd (ex_create_op ''7'' ''loop'' 200)))]
        \<in> set (snd (snd ex_create_run))
      \<and> Provider_CreateFilesystems ''tmpfs'' [ex_fp ''9'' ''tmpfs'' 13] \<in> set (snd (snd ex_create_run))"
    unfolding ex_create_run_def by code_simp
  note T = rejected_parameter_is_not_submitted[OF h1 h2 h3 h4 h5 h6 h7]
  from T h8 have c1: "\<exists>sts. Called_setStatus sts \<in> set (snd (snd ex_create_run))
         \<and> \<lparr>es_Tag = FilesystemTag_String (fp_Tag (cf_args ?op)),
             es_Status = ''error'', es_Info = error_Error (New ''tmpfs: zero size'')\<rparr> \<in> set sts"
    by blast
  from T h9 have c2: "OpCreate (Some ?op) \<notin> set [OpCreate (Some (snd (ex_create_op ''7'' ''loop'' 200)))]"
    by blast
  from T h9 have c3: "cf_args ?op \<notin> set [ex_fp ''9'' ''tmpfs'' 13]"
    by blast
  from h0 h4 h6 h8 h9 c1 c2 c3 show ?thesis by blast
qed

subsection \<open>Claim C5: the interpretation of the create results\<close>



subsection \<open>Claim C6: results are read against the parameters that passed validation\<close>

text \<open>
  C6. In one pass of the create loop for a source, with \<open>valid\<close> the parameters that
  passed validation, in their order: the bulk call is made with \<open>valid\<close>; after the
  records of the rejected parameters come the records of the results, the i-th of them
  being the record of the i-th parameter of \<open>valid\<close> with the i-th result; the
  reschedule entries are looked up with the tags of \<open>valid\<close>; and the filesystems
  collected are those of the successful results.
\<close>

theorem create_results_aligned_with_validated:
  assumes "lookup_source srcs n = Some src"
    and "createFilesystems_source ops srcs n ps acc = Inr acc'"
    and "filter (\<lambda>p. ValidateFilesystemParams src p = None) ps = valid"
    and "valid \<noteq> []"
  shows "\<exists>rs. CreateFilesystems src valid = Inr rs \<and> length rs \<le> length valid
     \<and> trace acc' = trace acc @ [Provider_CreateFilesystems n valid]
     \<and> statuses acc' = statuses acc @ rejected_statuses src ps
          @ map (\<lambda>(p, r). spec_create_status p r) (zip valid rs)
     \<and> (\<forall>i<length rs.
          statuses acc' ! (length (statuses acc) + length (rejected_statuses src ps) + i) =
            spec_create_status (valid ! i) (rs ! i))
     \<and> reschedule acc' = reschedule acc @
          map (\<lambda>(p, r). OpCreate (map_of ops (fp_Tag p)))
            (filter (\<lambda>(p, r). cr_Error r \<noteq> None) (zip valid rs))
     \<and> map Some (collected acc') = map Some (collected acc) @
          map cr_Filesystem (filter (\<lambda>r. cr_Error r = None) rs)"
proof -
  from createFilesystems_source_char[OF assms(1,2)] assms(3,4) obtain rs where
    rs: "CreateFilesystems src valid = Inr rs" "length rs \<le> length valid"
    and tr: "trace acc' = trace acc @ [Provider_CreateFilesystems n valid]"
    and st: "statuses acc' = statuses acc @ rejected_statuses src ps
          @ map (\<lambda>(p, r). spec_create_status p r) (zip valid rs)"
    and re: "reschedule acc' = reschedule acc @
          map (\<lambda>(p, r). OpCreate (map_of ops (fp_Tag p)))
            (filter (\<lambda>(p, r). cr_Error r \<noteq> None) (zip valid rs))"
    and co: "map Some (collected acc') = map Some (collected acc) @
          map cr_Filesystem (filter (\<lambda>r. cr_Error r = None) rs)"
    by (auto simp: Let_def)
  have "\<forall>i<length rs.
          statuses acc' ! (length (statuses acc) + length (rejected_statuses src ps) + i) =
            spec_create_status (valid ! i) (rs ! i)"
  proof (intro allI impI)
    fix i assume i: "i < length rs"
    with rs(2) have "i < length (zip valid rs)" by simp
    then have "map (\<lambda>(p, r). spec_create_status p r) (zip valid rs) ! i =
               spec_create_status (valid ! i) (rs ! i)"
      by simp
    then show "statuses acc' ! (length (statuses acc) + length (rejected_statuses src ps) + i) =
            spec_create_status (valid ! i) (rs ! i)"
      unfolding st by (simp add: nth_append add.assoc)
  qed
  with rs tr st re co show ?thesis by blast
qed

theorem create_results_aligned_with_validated_witness:
  "lookup_source [''tmpfs'' \<mapsto> Some (ex_source ''tmpfs'')] ''tmpfs'' = Some (ex_source ''tmpfs'')
   \<and> createFilesystems_source
        [ex_create_op ''6'' ''tmpfs'' 0, ex_create_op ''9'' ''tmpfs'' 13, ex_create_op ''10'' ''tmpfs'' 500]
        [''tmpfs'' \<mapsto> Some (ex_source ''tmpfs'')] ''tmpfs''
        [ex_fp ''6'' ''tmpfs'' 0, ex_fp ''9'' ''tmpfs'' 13, ex_fp ''10'' ''tmpfs'' 500] no_locals
      = Inr ex_tmpfs_locals
   \<and> filter (\<lambda>p. ValidateFilesystemParams (ex_source ''tmpfs'') p = None)
        [ex_fp ''6'' ''tmpfs'' 0, ex_fp ''9'' ''tmpfs'' 13, ex_fp ''10'' ''tmpfs'' 500]
      = [ex_fp ''9'' ''tmpfs'' 13, ex_fp ''10'' ''tmpfs'' 500]
   \<and> (\<exists>rs. CreateFilesystems (ex_source ''tmpfs'') [ex_fp ''9'' ''tmpfs'' 13, ex_fp ''10'' ''tmpfs'' 500] = Inr rs
         \<and> statuses ex_tmpfs_locals = statuses (no_locals :: Filesystem locals)
              @ rejected_statuses (ex_source ''tmpfs'')
                  [ex_fp ''6'' ''tmpfs'' 0, ex_fp ''9'' ''tmpfs'' 13, ex_fp ''10'' ''tmpfs'' 500]
              @ map (\<lambda>(p, r). spec_create_status p r)
                  (zip [ex_fp ''9'' ''tmpfs'' 13, ex_fp ''10'' ''tmpfs'' 500] rs))
   \<and> statuses ex_tmpfs_locals =
        [ex_status ''filesystem-6'' ''error'' ''tmpfs: zero size'',
         ex_status ''filesystem-9'' ''attaching'' [],
         ex_status ''filesystem-10'' ''pending'' ''too large'']"
proof -
  have h1: "lookup_source [''tmpfs'' \<mapsto> Some (ex_source ''tmpfs'')] ''tmpfs'' = Some (ex_source ''tmpfs'')"
    by (simp add: lookup_source_def)
  have h2: "createFilesystems_source
        [ex_create_op ''6'' ''tmpfs'' 0, ex_create_op ''9'' ''tmpfs'' 13, ex_create_op ''10'' ''tmpfs'' 500]
        [''tmpfs'' \<mapsto> Some (ex_source ''tmpfs'')] ''tmpfs''
        [ex_fp ''6'' ''tmpfs'' 0, ex_fp ''9'' ''tmpfs'' 13, ex_fp ''10'' ''tmpfs'' 500] no_locals
      = Inr ex_tmpfs_locals"
    by code_simp
  have h3: "filter (\<lambda>p. ValidateFilesystemParams (ex_source ''tmpfs'') p = None)
        [ex_fp ''6'' ''tmpfs'' 0, ex_fp ''9'' ''tmpfs'' 13, ex_fp ''10'' ''tmpfs'' 500]
      = [ex_fp ''9'' ''tmpfs'' 13, ex_fp ''10'' ''tmpfs'' 500]"
    by (simp add: ex_source_def ex_fp_def)
  have h4: "[ex_fp ''9'' ''tmpfs'' 13, ex_fp ''10'' ''tmpfs'' 500] \<noteq> []" by simp
  have h5: "statuses ex_tmpfs_locals =
        [ex_status ''filesystem-6'' ''error'' ''tmpfs: zero size'',
         ex_status ''filesystem-9'' ''attaching'' [],
         ex_status ''filesystem-10'' ''pending'' ''too large'']"
    by (simp add: ex_tmpfs_locals_def)
  from create_results_aligned_with_validated[OF h1 h2 h3 h4] h1 h2 h3 h5
  show ?thesis by blast
qed

subsection \<open>Claim C7: destroy and release\<close>



subsection \<open>Claim C8: a source name without a source, in a CAAS model\<close>



subsection \<open>Claim C9: one flush, after the last source\<close>

text \<open>
  C9. In every executor pass that returns nil (create, attach, remove, detach), for
  every order of the sources, the events are: events of the per-source loop, none of
  them a flush call; then \<^verbatim>\<open>scheduleOperations\<close> and \<^verbatim>\<open>setStatus\<close>, once each; then the
  publishing events, none of them a flush call or a provider call.
\<close>

theorem flush_once_after_all_sources:
  "(createFilesystems seed ctx ops_c = (Return None, ctx', ev) \<longrightarrow>
      (\<exists>pre rs sts post.
           ev = pre @ [Called_scheduleOperations rs, Called_setStatus sts] @ post
           \<and> (\<forall>e\<in>set pre. \<not> is_flush e)
           \<and> (\<forall>e\<in>set post. \<not> is_flush e \<and> \<not> is_provider_call e)))
   \<and> (attachFilesystems seed ctx ops_a = (Return None, ctx', ev) \<longrightarrow>
      (\<exists>pre rs sts post.
           ev = pre @ [Called_scheduleOperations rs, Called_setStatus sts] @ post
           \<and> (\<forall>e\<in>set pre. \<not> is_flush e)
           \<and> (\<forall>e\<in>set post. \<not> is_flush e \<and> \<not> is_provider_call e)))
   \<and> (removeFilesystems seed ctx ops_r = (Return None, ctx', ev) \<longrightarrow>
      (\<exists>pre rs sts post.
           ev = pre @ [Called_scheduleOperations rs, Called_setStatus sts] @ post
           \<and> (\<forall>e\<in>set pre. \<not> is_flush e)
           \<and> (\<forall>e\<in>set post. \<not> is_flush e \<and> \<not> is_provider_call e)))
   \<and> (detachFilesystems seed ctx ops_d = (Return None, ctx', ev) \<longrightarrow>
      (\<exists>pre rs sts post.
           ev = pre @ [Called_scheduleOperations rs, Called_setStatus sts] @ post
           \<and> (\<forall>e\<in>set pre. \<not> is_flush e)
           \<and> (\<forall>e\<in>set post. \<not> is_flush e \<and> \<not> is_provider_call e)))"
proof (intro conjI impI)
  assume r: "createFilesystems seed ctx ops_c = (Return None, ctx', ev)"
  then obtain pbs srcs where
    "(case range_sources (createFilesystems_source ops_c srcs) (range_order seed pbs) no_locals of
        Inl (out, tr) \<Rightarrow> (out, ctx, tr)
      | Inr acc \<Rightarrow> createFilesystems_publish ctx acc) = (Return None, ctx', ev)"
    by (auto simp: createFilesystems_def Let_def split: sum.splits prod.splits)
  then show "\<exists>pre rs sts post.
           ev = pre @ [Called_scheduleOperations rs, Called_setStatus sts] @ post
           \<and> (\<forall>e\<in>set pre. \<not> is_flush e)
           \<and> (\<forall>e\<in>set post. \<not> is_flush e \<and> \<not> is_provider_call e)"
    by (rule pass_flushes_once[rotated 3])
       (auto dest: createFilesystems_source_trace createFilesystems_publish_events)
next
  assume r: "attachFilesystems seed ctx ops_a = (Return None, ctx', ev)"
  then obtain pbs srcs where
    "(case range_sources (attachFilesystems_source ops_a srcs) (range_order seed pbs) no_locals of
        Inl (out, tr) \<Rightarrow> (out, ctx, tr)
      | Inr acc \<Rightarrow> attachFilesystems_publish ctx acc) = (Return None, ctx', ev)"
    by (auto simp: attachFilesystems_def Let_def split: sum.splits prod.splits)
  then show "\<exists>pre rs sts post.
           ev = pre @ [Called_scheduleOperations rs, Called_setStatus sts] @ post
           \<and> (\<forall>e\<in>set pre. \<not> is_flush e)
           \<and> (\<forall>e\<in>set post. \<not> is_flush e \<and> \<not> is_provider_call e)"
    by (rule pass_flushes_once[rotated 3])
       (auto dest: attachFilesystems_source_trace attachFilesystems_publish_events)
next
  assume r: "removeFilesystems seed ctx ops_r = (Return None, ctx', ev)"
  then obtain pbs srcs byTag where
    "(case range_sources (removeFilesystems_source ops_r byTag srcs) (range_order seed pbs) no_locals of
        Inl (out, tr) \<Rightarrow> (out, ctx, tr)
      | Inr acc \<Rightarrow> removeFilesystems_publish ctx acc) = (Return None, ctx', ev)"
    by (auto simp: removeFilesystems_def Let_def split: sum.splits prod.splits option.splits)
  then show "\<exists>pre rs sts post.
           ev = pre @ [Called_scheduleOperations rs, Called_setStatus sts] @ post
           \<and> (\<forall>e\<in>set pre. \<not> is_flush e)
           \<and> (\<forall>e\<in>set post. \<not> is_flush e \<and> \<not> is_provider_call e)"
    by (rule pass_flushes_once[rotated 3])
       (auto dest: removeFilesystems_source_trace removeFilesystems_publish_events)
next
  assume r: "detachFilesystems seed ctx ops_d = (Return None, ctx', ev)"
  then obtain pbs srcs where
    "(case range_sources (detachFilesystems_source ctx ops_d srcs) (range_order seed pbs) no_locals of
        Inl (out, tr) \<Rightarrow> (out, ctx, tr)
      | Inr acc \<Rightarrow> detachFilesystems_publish ctx acc) = (Return None, ctx', ev)"
    by (auto simp: detachFilesystems_def Let_def split: sum.splits prod.splits)
  then show "\<exists>pre rs sts post.
           ev = pre @ [Called_scheduleOperations rs, Called_setStatus sts] @ post
           \<and> (\<forall>e\<in>set pre. \<not> is_flush e)
           \<and> (\<forall>e\<in>set post. \<not> is_flush e \<and> \<not> is_provider_call e)"
    by (rule pass_flushes_once[rotated 3])
       (auto dest: detachFilesystems_source_trace detachFilesystems_publish_events)
qed

theorem flush_once_after_all_sources_witness:
  "fst ex_create_run = Return None
   \<and> (\<exists>pre rs sts post.
         snd (snd ex_create_run) = pre @ [Called_scheduleOperations rs, Called_setStatus sts] @ post
         \<and> (\<forall>e\<in>set pre. \<not> is_flush e)
         \<and> (\<forall>e\<in>set post. \<not> is_flush e \<and> \<not> is_provider_call e))
   \<and> fst ex_attach_run = Return None
   \<and> (\<exists>pre rs sts post.
         snd (snd ex_attach_run) = pre @ [Called_scheduleOperations rs, Called_setStatus sts] @ post
         \<and> (\<forall>e\<in>set pre. \<not> is_flush e)
         \<and> (\<forall>e\<in>set post. \<not> is_flush e \<and> \<not> is_provider_call e))
   \<and> fst ex_remove_run = Return None
   \<and> (\<exists>pre rs sts post.
         snd (snd ex_remove_run) = pre @ [Called_scheduleOperations rs, Called_setStatus sts] @ post
         \<and> (\<forall>e\<in>set pre. \<not> is_flush e)
         \<and> (\<forall>e\<in>set post. \<not> is_flush e \<and> \<not> is_provider_call e))
   \<and> fst ex_detach_run = Return None
   \<and> (\<exists>pre rs sts post.
         snd (snd ex_detach_run) = pre @ [Called_scheduleOperations rs, Called_setStatus sts] @ post
         \<and> (\<forall>e\<in>set pre. \<not> is_flush e)
         \<and> (\<forall>e\<in>set post. \<not> is_flush e \<and> \<not> is_provider_call e))"
proof -
  have c: "fst ex_create_run = Return None" unfolding ex_create_run_def by code_simp
  have a: "fst ex_attach_run = Return None" unfolding ex_attach_run_def by code_simp
  have r: "fst ex_remove_run = Return None" unfolding ex_remove_run_def by code_simp
  have d: "fst ex_detach_run = Return None" unfolding ex_detach_run_def by code_simp
  have c': "createFilesystems [1] ex_ctx
     [ex_create_op ''5'' ''loop'' 10, ex_create_op ''6'' ''tmpfs'' 0, ex_create_op ''7'' ''loop'' 200,
      ex_create_op ''8'' ''static'' 5, ex_create_op ''9'' ''tmpfs'' 13]
     = (Return None, fst (snd ex_create_run), snd (snd ex_create_run))"
    using c by (simp add: ex_create_run_def prod_eq_iff)
  have a': "attachFilesystems [1] ex_ctx
     [ex_attach_op ''0'' ''loop'' [] False, ex_attach_op ''1'' ''tmpfs'' ''/mnt/x'' False,
      ex_attach_op ''2'' ''loop'' [] True]
     = (Return None, fst (snd ex_attach_run), snd (snd ex_attach_run))"
    using a by (simp add: ex_attach_run_def prod_eq_iff)
  have r': "removeFilesystems [] ex_ctx [ex_remove_op ''0'', ex_remove_op ''1'', ex_remove_op ''2'']
     = (Return None, fst (snd ex_remove_run), snd (snd ex_remove_run))"
    using r by (simp add: ex_remove_run_def prod_eq_iff)
  have d': "detachFilesystems [1] ex_ctx
     [ex_detach_op ''0'' ''loop'' [] False, ex_detach_op ''1'' ''tmpfs'' ''/mnt/x'' False,
      ex_detach_op ''2'' ''loop'' [] True]
     = (Return None, fst (snd ex_detach_run), snd (snd ex_detach_run))"
    using d by (simp add: ex_detach_run_def prod_eq_iff)
  note T = flush_once_after_all_sources
  from c' T[where seed = "[1]" and ctx = ex_ctx and ctx' = "fst (snd ex_create_run)"
             and ev = "snd (snd ex_create_run)"]
  have c'': "\<exists>pre rs sts post.
         snd (snd ex_create_run) = pre @ [Called_scheduleOperations rs, Called_setStatus sts] @ post
         \<and> (\<forall>e\<in>set pre. \<not> is_flush e)
         \<and> (\<forall>e\<in>set post. \<not> is_flush e \<and> \<not> is_provider_call e)" by blast
  from a' T[where seed = "[1]" and ctx = ex_ctx and ctx' = "fst (snd ex_attach_run)"
             and ev = "snd (snd ex_attach_run)"]
  have a'': "\<exists>pre rs sts post.
         snd (snd ex_attach_run) = pre @ [Called_scheduleOperations rs, Called_setStatus sts] @ post
         \<and> (\<forall>e\<in>set pre. \<not> is_flush e)
         \<and> (\<forall>e\<in>set post. \<not> is_flush e \<and> \<not> is_provider_call e)" by blast
  from r' T[where seed = "[]" and ctx = ex_ctx and ctx' = "fst (snd ex_remove_run)"
             and ev = "snd (snd ex_remove_run)"]
  have r'': "\<exists>pre rs sts post.
         snd (snd ex_remove_run) = pre @ [Called_scheduleOperations rs, Called_setStatus sts] @ post
         \<and> (\<forall>e\<in>set pre. \<not> is_flush e)
         \<and> (\<forall>e\<in>set post. \<not> is_flush e \<and> \<not> is_provider_call e)" by blast
  from d' T[where seed = "[1]" and ctx = ex_ctx and ctx' = "fst (snd ex_detach_run)"
             and ev = "snd (snd ex_detach_run)"]
  have d'': "\<exists>pre rs sts post.
         snd (snd ex_detach_run) = pre @ [Called_scheduleOperations rs, Called_setStatus sts] @ post
         \<and> (\<forall>e\<in>set pre. \<not> is_flush e)
         \<and> (\<forall>e\<in>set post. \<not> is_flush e \<and> \<not> is_provider_call e)" by blast
  from c a r d c'' a'' r'' d'' show ?thesis by blast
qed

subsection \<open>Claim C10: attachments of filesystems that are not in the cache\<close>

text \<open>
  C10, as the code has it. The source of a provider name is decided by the first
  attachment parameter of that name. When that parameter's filesystem is absent from
  the local cache (or cached with a backing volume), the name is resolved to the
  managed filesystem source, and the registry's answer for that name does not matter:
  the result is the same for every registry that agrees on the other names. A later
  parameter of a name that is already resolved does not change the source.
\<close>

theorem attachment_source_of_first_parameter:
  assumes "find (\<lambda>q. ap_Provider q = ap_Provider p) params = Some p"
    and "fss (ap_Filesystem p) = None \<or> (\<exists>f. fss (ap_Filesystem p) = Some f \<and> fs_Volume f \<noteq> VolumeTag [])"
  shows "(\<forall>pbs srcs. filesystemAttachmentParamsBySource dir params fss managed registry = Inr (pbs, srcs)
            \<longrightarrow> srcs (ap_Provider p) = Some (Some managed))
       \<and> (\<forall>registry'. (\<forall>m. m \<noteq> ap_Provider p \<longrightarrow> registry' m = registry m) \<longrightarrow>
            filesystemAttachmentParamsBySource dir params fss managed registry' =
            filesystemAttachmentParamsBySource dir params fss managed registry)"
proof (intro conjI allI impI)
  from assms(2) have m: "(case fss (ap_Filesystem p) of None \<Rightarrow> True | Some f \<Rightarrow> fs_Volume f \<noteq> VolumeTag [])"
    by (auto split: option.splits)
  {
    fix pbs srcs
    assume "filesystemAttachmentParamsBySource dir params fss managed registry = Inr (pbs, srcs)"
    then have l: "filesystemAttachmentParamsBySource_loop dir params fss managed registry [] Map.empty = Inr (pbs, srcs)"
      by (simp add: filesystemAttachmentParamsBySource_def)
    from attach_loop_first[OF l _ assms(1) m] show "srcs (ap_Provider p) = Some (Some managed)"
      by simp
  }
  {
    fix registry' :: "string \<Rightarrow> error + FilesystemSource"
    assume a: "\<forall>m. m \<noteq> ap_Provider p \<longrightarrow> registry' m = registry m"
    show "filesystemAttachmentParamsBySource dir params fss managed registry' =
            filesystemAttachmentParamsBySource dir params fss managed registry"
      unfolding filesystemAttachmentParamsBySource_def
      by (rule attach_loop_registry) (use a assms(1) m in auto)
  }
qed

theorem attachment_source_of_first_parameter_witness:
  "find (\<lambda>q. ap_Provider q = ap_Provider (ex_ap ''7'' ''nosuch'' [] False))
       [ex_ap ''0'' ''loop'' [] False, ex_ap ''7'' ''nosuch'' [] False] = Some (ex_ap ''7'' ''nosuch'' [] False)
   \<and> ex_cache (ap_Filesystem (ex_ap ''7'' ''nosuch'' [] False)) = None
   \<and> ex_registry ''nosuch'' = Inl (New ''unknown provider'')
   \<and> filesystemAttachmentParamsBySource ''/storage''
        [ex_ap ''0'' ''loop'' [] False, ex_ap ''7'' ''nosuch'' [] False] ex_cache (ex_source ''managed'') ex_registry =
       Inr ([(''loop'', [ex_ap ''0'' ''loop'' [] False]), (''nosuch'', [ex_ap ''7'' ''nosuch'' [] False])],
            [''loop'' \<mapsto> Some (ex_source ''loop''), ''nosuch'' \<mapsto> Some (ex_source ''managed'')])
   \<and> [''loop'' \<mapsto> Some (ex_source ''loop''), ''nosuch'' \<mapsto> Some (ex_source ''managed'')]
        (ap_Provider (ex_ap ''7'' ''nosuch'' [] False)) = Some (Some (ex_source ''managed''))
   \<and> filesystemAttachmentParamsBySource ''/storage''
        [ex_ap ''0'' ''loop'' [] False, ex_ap ''7'' ''nosuch'' [] False] ex_cache (ex_source ''managed'')
        (ex_registry(''nosuch'' := Inr (ex_source ''other''))) =
      filesystemAttachmentParamsBySource ''/storage''
        [ex_ap ''0'' ''loop'' [] False, ex_ap ''7'' ''nosuch'' [] False] ex_cache (ex_source ''managed'') ex_registry"
proof -
  have h1: "find (\<lambda>q. ap_Provider q = ap_Provider (ex_ap ''7'' ''nosuch'' [] False))
       [ex_ap ''0'' ''loop'' [] False, ex_ap ''7'' ''nosuch'' [] False] = Some (ex_ap ''7'' ''nosuch'' [] False)"
    by (simp add: ex_ap_def)
  have h2: "ex_cache (ap_Filesystem (ex_ap ''7'' ''nosuch'' [] False)) = None"
    by (simp add: ex_ap_def ex_cache_def)
  have h3: "filesystemAttachmentParamsBySource ''/storage''
        [ex_ap ''0'' ''loop'' [] False, ex_ap ''7'' ''nosuch'' [] False] ex_cache (ex_source ''managed'') ex_registry =
       Inr ([(''loop'', [ex_ap ''0'' ''loop'' [] False]), (''nosuch'', [ex_ap ''7'' ''nosuch'' [] False])],
            [''loop'' \<mapsto> Some (ex_source ''loop''), ''nosuch'' \<mapsto> Some (ex_source ''managed'')])"
    by (simp add: filesystemAttachmentParamsBySource_def ex_ap_def ex_registry_def
          filesystemSource_def ex_cache_def Let_def)
  have h4: "ex_registry ''nosuch'' = Inl (New ''unknown provider'')"
    by (simp add: ex_registry_def)
  have h5: "\<forall>m. m \<noteq> ap_Provider (ex_ap ''7'' ''nosuch'' [] False) \<longrightarrow>
       (ex_registry(''nosuch'' := Inr (ex_source ''other''))) m = ex_registry m"
    by (simp add: ex_ap_def)
  note T = attachment_source_of_first_parameter[where p = "ex_ap ''7'' ''nosuch'' [] False"
      and params = "[ex_ap ''0'' ''loop'' [] False, ex_ap ''7'' ''nosuch'' [] False]"
      and fss = ex_cache and dir = "''/storage''"
      and managed = "ex_source ''managed''" and registry = ex_registry]
  from T h1 h2 h3 h4 h5 show ?thesis by blast
qed

theorem attachment_source_already_resolved_counterexample:
  "ex_cache (ap_Filesystem (ex_ap ''1'' ''loop'' [] False)) = None
   \<and> filesystemAttachmentParamsBySource ''/storage''
        [ex_ap ''0'' ''loop'' [] False, ex_ap ''1'' ''loop'' [] False] ex_cache (ex_source ''managed'') ex_registry =
       Inr ([(''loop'', [ex_ap ''0'' ''loop'' [] False, ex_ap ''1'' ''loop'' [] False])],
            [''loop'' \<mapsto> Some (ex_source ''loop'')])
   \<and> [''loop'' \<mapsto> Some (ex_source ''loop'')] (ap_Provider (ex_ap ''1'' ''loop'' [] False))
        \<noteq> Some (Some (ex_source ''managed''))"
proof -
  have "ex_source ''loop'' \<noteq> ex_source ''managed''"
  proof
    assume "ex_source ''loop'' = ex_source ''managed''"
    then have "ValidateFilesystemParams (ex_source ''loop'') zero_FilesystemParams =
               ValidateFilesystemParams (ex_source ''managed'') zero_FilesystemParams" by simp
    then show False by (simp add: ex_source_def zero_FilesystemParams_def)
  qed
  then show ?thesis
    by (simp add: filesystemAttachmentParamsBySource_def ex_ap_def ex_registry_def
          filesystemSource_def ex_cache_def Let_def)
qed

end
